theory Spec2Isabelle
  imports Main "HOL-Library.Sublist" "HOL-Library.Multiset"
begin

section \<open>JavaScript values used by the portfolio scripts\<close>

text \<open>
  The scripts read parsed JSON and test it with JavaScript truthiness (\<open>!x\<close>,
  \<open>x || d\<close>). A parsed JSON value is modelled by \<open>json\<close>; a property that is not there
  reads as \<open>undefined\<close>, modelled by \<open>None\<close>. Strings are lists of 8-bit characters;
  numbers that the scripts handle (counters, millisecond clocks) are integers.
\<close>

datatype json =
    JNull
  | JBool bool
  | JNum int
  | JStr string
  | JArr "json list"
  | JObj "(string \<times> json) list"

text \<open>Truthiness of a value: \<open>null\<close>, \<open>false\<close>, \<open>0\<close> and \<open>''\<close> are falsy.\<close>

fun truthy :: "json \<Rightarrow> bool" where
  "truthy JNull = False"
| "truthy (JBool b) = b"
| "truthy (JNum n) = (n \<noteq> 0)"
| "truthy (JStr s) = (s \<noteq> [])"
| "truthy (JArr xs) = True"
| "truthy (JObj kvs) = True"

text \<open>\<open>v || d\<close> where \<open>v\<close> may be \<open>undefined\<close>.\<close>

fun or_default :: "json option \<Rightarrow> json \<Rightarrow> json" where
  "or_default None d = d"
| "or_default (Some v) d = (if truthy v then v else d)"

text \<open>
  Property access \<open>data.key\<close>: on \<open>null\<close> it throws a TypeError (\<open>Inl\<close>), on an object
  it reads the property, on any other parsed value the named property is \<open>undefined\<close>.
\<close>

datatype js_error =
    TypeError
  | StatusError nat
  | NetworkFailure
  | JsonSyntaxError
  | ValidationError
  | InvalidCharacterError
  | InvalidThemeData

fun get_prop :: "json \<Rightarrow> string \<Rightarrow> js_error + json option" where
  "get_prop JNull k = Inl TypeError"
| "get_prop (JObj kvs) k = Inr (map_of kvs k)"
| "get_prop v k = Inr None"

text \<open>What a function call comes to: it returns a value or raises to its caller.\<close>

datatype 'a completion = Returned 'a | Raised js_error

section \<open>The network\<close>

text \<open>
  One call of \<open>fetch\<close> either rejects (transport error) or resolves to a response with a
  status code and a body; \<open>response.json()\<close> rejects when the body is not JSON
  (\<open>None\<close>). \<open>response.ok\<close> is true for the statuses 200 to 299.
\<close>

datatype 'b fetch_result = Rejected | Response nat "'b option"

definition ok :: "nat \<Rightarrow> bool" where
  "ok status = (200 \<le> status \<and> status \<le> 299)"

section \<open>GitHubAPI (js/github-api.js)\<close>

record snapshot =
  public_repos :: json
  followers :: json
  following :: json
  avatar_url :: json
  bio :: json
  location :: json
  company :: json
  blog :: json
  created_at :: json

record cache =
  data :: "snapshot option"
  timestamp :: "int option"
  ttl :: int

record GitHubAPI =
  username :: string
  apiUrl :: string
  cache :: cache

text \<open>The constructor: an empty cache with a time-to-live of five minutes.\<close>

definition new_GitHubAPI :: "string \<Rightarrow> GitHubAPI" where
  "new_GitHubAPI u =
     \<lparr> username = u,
       apiUrl = ''https://api.github.com/users/'' @ u,
       cache = \<lparr> data = None, timestamp = None, ttl = 5 * 60 * 1000 \<rparr> \<rparr>"

text \<open>
  \<open>isCacheValid\<close>: \<open>!this.cache.data || !this.cache.timestamp\<close> answers false; a
  timestamp of \<open>0\<close> is falsy like \<open>null\<close>. Otherwise the age is compared with the
  time-to-live. \<open>now\<close> is the value of \<open>Date.now()\<close>.
\<close>

definition isCacheValid :: "GitHubAPI \<Rightarrow> int \<Rightarrow> bool" where
  "isCacheValid api now =
     (case data (cache api) of
        None \<Rightarrow> False
      | Some d \<Rightarrow>
          (case timestamp (cache api) of
             None \<Rightarrow> False
           | Some t \<Rightarrow> if t = 0 then False else now - t < ttl (cache api)))"

text \<open>The normalisation of the response body (lines 50 to 60).\<close>

definition normalise :: "json \<Rightarrow> js_error + snapshot" where
  "normalise d =
     (case get_prop d ''public_repos'' of Inl e \<Rightarrow> Inl e | Inr v1 \<Rightarrow>
      case get_prop d ''followers'' of Inl e \<Rightarrow> Inl e | Inr v2 \<Rightarrow>
      case get_prop d ''following'' of Inl e \<Rightarrow> Inl e | Inr v3 \<Rightarrow>
      case get_prop d ''avatar_url'' of Inl e \<Rightarrow> Inl e | Inr v4 \<Rightarrow>
      case get_prop d ''bio'' of Inl e \<Rightarrow> Inl e | Inr v5 \<Rightarrow>
      case get_prop d ''location'' of Inl e \<Rightarrow> Inl e | Inr v6 \<Rightarrow>
      case get_prop d ''company'' of Inl e \<Rightarrow> Inl e | Inr v7 \<Rightarrow>
      case get_prop d ''blog'' of Inl e \<Rightarrow> Inl e | Inr v8 \<Rightarrow>
      case get_prop d ''created_at'' of Inl e \<Rightarrow> Inl e | Inr v9 \<Rightarrow>
        Inr \<lparr> public_repos = or_default v1 (JNum 0),
              followers = or_default v2 (JNum 0),
              following = or_default v3 (JNum 0),
              avatar_url = or_default v4 (JStr ''''),
              bio = or_default v5 (JStr ''''),
              location = or_default v6 (JStr ''''),
              company = or_default v7 (JStr ''''),
              blog = or_default v8 (JStr ''''),
              created_at = or_default v9 (JStr '''') \<rparr>)"

text \<open>The fallback data of the \<open>catch\<close> block (lines 68 to 78).\<close>

definition fallback_snapshot :: snapshot where
  "fallback_snapshot =
     \<lparr> public_repos = JStr ''?'',
       followers = JStr ''?'',
       following = JStr ''?'',
       avatar_url = JStr '''',
       bio = JStr '''',
       location = JStr '''',
       company = JStr '''',
       blog = JStr '''',
       created_at = JStr '''' \<rparr>"

text \<open>
  The body of the \<open>try\<close> block, after the request has been issued: it throws on a
  rejected request, on a status that is not ok, on a body that does not parse and on a
  \<open>null\<close> body; otherwise it stores the snapshot with the clock read after the
  response (\<open>now'\<close>) and returns it.
\<close>

definition fetch_try :: "GitHubAPI \<Rightarrow> int \<Rightarrow> json fetch_result \<Rightarrow> js_error + (snapshot \<times> GitHubAPI)" where
  "fetch_try api now' net =
     (case net of
        Rejected \<Rightarrow> Inl NetworkFailure
      | Response status body \<Rightarrow>
          if \<not> ok status then Inl (StatusError status)
          else (case body of
                  None \<Rightarrow> Inl JsonSyntaxError
                | Some d \<Rightarrow>
                    (case normalise d of
                       Inl e \<Rightarrow> Inl e
                     | Inr s \<Rightarrow>
                         Inr (s, api\<lparr> cache := (cache api)\<lparr> data := Some s, timestamp := Some now' \<rparr> \<rparr>))))"

text \<open>
  What one call of \<open>fetchUserData\<close> does: its completion (the value returned is
  \<open>this.cache.data\<close>, which the constructor sets to \<open>null\<close>, or a snapshot), the object
  afterwards, the number of network requests issued and the diagnostics written with
  \<open>console.warn\<close>.
\<close>

record fetch_outcome =
  completion :: "snapshot option completion"
  api_after :: GitHubAPI
  requests :: nat
  warnings :: "js_error list"

definition fetchUserData :: "GitHubAPI \<Rightarrow> int \<Rightarrow> int \<Rightarrow> json fetch_result \<Rightarrow> fetch_outcome" where
  "fetchUserData api now now' net =
     (if isCacheValid api now then
        \<lparr> completion = Returned (data (cache api)), api_after = api, requests = 0,
          warnings = [] \<rparr>
      else
        (case fetch_try api now' net of
           Inr (s, api') \<Rightarrow>
             \<lparr> completion = Returned (Some s), api_after = api', requests = 1, warnings = [] \<rparr>
         | Inl e \<Rightarrow>
             \<lparr> completion = Returned (Some fallback_snapshot), api_after = api, requests = 1,
               warnings = [e] \<rparr>))"

text \<open>A failure of the remote profile call: a transport error or a status outside 200 to 299.\<close>

definition call_failed :: "json fetch_result \<Rightarrow> bool" where
  "call_failed net = (case net of Rejected \<Rightarrow> True | Response status body \<Rightarrow> \<not> ok status)"

section \<open>Strings\<close>

text \<open>
  \<open>toLowerCase\<close> and \<open>toUpperCase\<close> are modelled on the ASCII letters; every other
  character is left as it is. \<open>String.prototype.includes\<close> is the test for a contiguous
  sublist.
\<close>

definition char_code :: "char \<Rightarrow> nat" where
  "char_code c = of_char c"

definition is_upper :: "char \<Rightarrow> bool" where
  "is_upper c = (65 \<le> char_code c \<and> char_code c \<le> 90)"

definition is_lower :: "char \<Rightarrow> bool" where
  "is_lower c = (97 \<le> char_code c \<and> char_code c \<le> 122)"

definition is_digit :: "char \<Rightarrow> bool" where
  "is_digit c = (48 \<le> char_code c \<and> char_code c \<le> 57)"

definition lower_char :: "char \<Rightarrow> char" where
  "lower_char c = (if is_upper c then char_of (char_code c + 32) else c)"

definition upper_char :: "char \<Rightarrow> char" where
  "upper_char c = (if is_lower c then char_of (char_code c - 32) else c)"

definition toLowerCase :: "string \<Rightarrow> string" where
  "toLowerCase s = map lower_char s"

definition includes_str :: "string \<Rightarrow> string \<Rightarrow> bool" where
  "includes_str s t = sublist t s"

text \<open>The class \<open>\w\<close> of a regular expression and ASCII whitespace.\<close>

definition word_char :: "char \<Rightarrow> bool" where
  "word_char c = (is_upper c \<or> is_lower c \<or> is_digit c \<or> c = CHR ''_'')"

definition ascii_space :: "char \<Rightarrow> bool" where
  "ascii_space c = (char_code c \<in> {9, 10, 12, 13, 32})"

section \<open>ThemeManager (js/theme.js)\<close>

type_synonym colors = "(string \<times> string) list"

record theme =
  theme_name :: string
  theme_colors :: colors

text \<open>
  The object handed to \<open>importTheme\<close> and made by \<open>exportTheme\<close>; a property that is not
  there is \<open>None\<close>.
\<close>

record theme_data =
  td_name :: "string option"
  td_colors :: "colors option"
  td_timestamp :: "int option"

datatype theme_diag =
    ThemeNotFound string
  | ThemeExists string
  | BuiltinTheme string
  | SaveFailed
  | ImportFailed js_error

text \<open>
  The manager and the part of the page it writes: the custom properties of the root
  element, the class name of the body, the entry \<open>portfolio-theme\<close> of the local storage
  (and whether writing it succeeds), the \<open>themeChanged\<close> events dispatched, the
  \<open>.theme-option\<close> controls (their \<open>data-theme\<close> and whether they are marked current) and
  the console. The registry \<open>themes\<close> keeps its keys in insertion order.
\<close>

record theme_state =
  themes :: "(string \<times> theme) list"
  currentTheme :: string
  systemPreference :: string
  css_vars :: "string \<rightharpoonup> string"
  body_className :: string
  saved_theme :: "string option"
  storage_writable :: bool
  theme_events :: "(string \<times> colors) list"
  theme_options :: "(string \<times> bool) list"
  theme_console :: "theme_diag list"

definition cafe_colors :: colors where
  "cafe_colors =
     [(''primary-bg'', ''linear-gradient(135deg, #f7f3e9 0%, #e8ddd4 100%)''),
      (''text-primary'', ''#6b4423''),
      (''text-secondary'', ''#8b6f47''),
      (''accent-primary'', ''#d4a574''),
      (''accent-secondary'', ''#b8956a''),
      (''card-bg'', ''rgba(255, 255, 255, 0.8)''),
      (''shadow-light'', ''rgba(107, 68, 35, 0.1)''),
      (''shadow-medium'', ''rgba(107, 68, 35, 0.2)'')]"

definition dark_colors :: colors where
  "dark_colors =
     [(''primary-bg'', ''linear-gradient(135deg, #2c1810 0%, #3d2817 100%)''),
      (''text-primary'', ''#f4e6d3''),
      (''text-secondary'', ''#d4c4a8''),
      (''accent-primary'', ''#d4a574''),
      (''accent-secondary'', ''#b8956a''),
      (''card-bg'', ''rgba(0, 0, 0, 0.3)''),
      (''shadow-light'', ''rgba(0, 0, 0, 0.3)''),
      (''shadow-medium'', ''rgba(0, 0, 0, 0.5)'')]"

definition ocean_colors :: colors where
  "ocean_colors =
     [(''primary-bg'', ''linear-gradient(135deg, #e6f7ff 0%, #bae0ff 100%)''),
      (''text-primary'', ''#003a8c''),
      (''text-secondary'', ''#1f54a3''),
      (''accent-primary'', ''#1890ff''),
      (''accent-secondary'', ''#096dd9''),
      (''card-bg'', ''rgba(255, 255, 255, 0.8)''),
      (''shadow-light'', ''rgba(0, 58, 140, 0.1)''),
      (''shadow-medium'', ''rgba(0, 58, 140, 0.2)'')]"

definition forest_colors :: colors where
  "forest_colors =
     [(''primary-bg'', ''linear-gradient(135deg, #f0f9f0 0%, #d9f7be 100%)''),
      (''text-primary'', ''#135200''),
      (''text-secondary'', ''#389e0d''),
      (''accent-primary'', ''#52c41a''),
      (''accent-secondary'', ''#73d13d''),
      (''card-bg'', ''rgba(255, 255, 255, 0.8)''),
      (''shadow-light'', ''rgba(19, 82, 0, 0.1)''),
      (''shadow-medium'', ''rgba(19, 82, 0, 0.2)'')]"

definition builtin_themes :: "(string \<times> theme) list" where
  "builtin_themes =
     [(''cafe'', \<lparr> theme_name = ''Cafe'', theme_colors = cafe_colors \<rparr>),
      (''dark'', \<lparr> theme_name = ''Dark'', theme_colors = dark_colors \<rparr>),
      (''ocean'', \<lparr> theme_name = ''Ocean'', theme_colors = ocean_colors \<rparr>),
      (''forest'', \<lparr> theme_name = ''Forest'', theme_colors = forest_colors \<rparr>)]"

text \<open>
  The fields the constructor sets before it calls \<open>init\<close>, on a page that has no
  custom property, no body class, an empty writable storage and no selector yet.
\<close>

definition constructed :: theme_state where
  "constructed =
     \<lparr> themes = builtin_themes, currentTheme = ''cafe'', systemPreference = ''light'',
       css_vars = Map.empty, body_className = [], saved_theme = None,
       storage_writable = True, theme_events = [], theme_options = [],
       theme_console = [] \<rparr>"

text \<open>\<open>saveTheme\<close>: the write to the storage may throw; the failure is logged.\<close>

definition saveTheme :: "string \<Rightarrow> theme_state \<Rightarrow> theme_state" where
  "saveTheme themeName st =
     (if storage_writable st then st\<lparr> saved_theme := Some themeName \<rparr>
      else st\<lparr> theme_console := theme_console st @ [SaveFailed] \<rparr>)"

text \<open>
  \<open>className.replace(/theme-\w+/g, '')\<close>: from left to right, every occurrence of
  \<open>theme-\<close> followed by at least one word character is removed together with the
  longest run of word characters after it.
\<close>

function strip_theme_classes :: "string \<Rightarrow> string" where
  "strip_theme_classes [] = []"
| "strip_theme_classes (c # cs) =
     (if prefix ''theme-'' (c # cs) \<and> takeWhile word_char (drop 6 (c # cs)) \<noteq> []
      then strip_theme_classes (dropWhile word_char (drop 6 (c # cs)))
      else c # strip_theme_classes cs)"
  by pat_completeness auto
termination
proof (relation "measure length")
  show "wf (measure length)" by simp
next
  fix c :: char and cs :: string
  assume "prefix ''theme-'' (c # cs) \<and> takeWhile word_char (drop 6 (c # cs)) \<noteq> []"
  have "length (dropWhile word_char (drop 6 (c # cs))) \<le> length (drop 6 (c # cs))"
    by (rule length_dropWhile_le)
  also have "\<dots> < length (c # cs)" by simp
  finally show "(dropWhile word_char (drop 6 (c # cs)), c # cs) \<in> measure length" by simp
next
  fix c :: char and cs :: string
  show "(cs, c # cs) \<in> measure length" by simp
qed

text \<open>
  The tokens of a class attribute (split at ASCII whitespace), and \<open>classList.add\<close>:
  it throws on a token that contains whitespace, otherwise the attribute becomes the
  tokens without repetition, the new one last if it was not there, joined by one space.
\<close>

fun class_tokens :: "string \<Rightarrow> string \<Rightarrow> string list" where
  "class_tokens cur [] = (if cur = [] then [] else [cur])"
| "class_tokens cur (c # cs) =
     (if ascii_space c then (if cur = [] then class_tokens [] cs else cur # class_tokens [] cs)
      else class_tokens (cur @ [c]) cs)"

fun join_space :: "string list \<Rightarrow> string" where
  "join_space [] = []"
| "join_space [t] = t"
| "join_space (t # ts) = t @ '' '' @ join_space ts"

definition classList_add :: "string \<Rightarrow> string \<Rightarrow> js_error + string" where
  "classList_add token className =
     (if token = [] \<or> (\<exists>c \<in> set token. ascii_space c) then Inl InvalidCharacterError
      else
        (let ts = rev (remdups (rev (class_tokens [] className)))
         in Inr (join_space (if token \<in> set ts then ts else ts @ [token]))))"

text \<open>\<open>updateThemeSelector\<close>: every option is marked current iff it names the current theme.\<close>

definition updateThemeSelector :: "theme_state \<Rightarrow> theme_state" where
  "updateThemeSelector st =
     st\<lparr> theme_options := map (\<lambda>(k, b). (k, k = currentTheme st)) (theme_options st) \<rparr>"

text \<open>
  \<open>style.setProperty\<close> on the declaration block of the root element: an empty value
  removes the property, any other value is stored under the property name. (A value
  that is no CSS declaration value would be ignored by the browser; the model takes the
  values of a colour mapping to be declaration values.)
\<close>

definition setProperty :: "string \<Rightarrow> string \<Rightarrow> (string \<rightharpoonup> string) \<Rightarrow> (string \<rightharpoonup> string)" where
  "setProperty property v m = (if v = [] then m(property := None) else m(property \<mapsto> v))"

text \<open>\<open>root.style.setProperty\<close> for every entry of the colour mapping, in order.\<close>

definition set_properties :: "colors \<Rightarrow> (string \<rightharpoonup> string) \<Rightarrow> (string \<rightharpoonup> string)" where
  "set_properties cols vars = fold (\<lambda>(property, v). setProperty (''--'' @ property) v) cols vars"

text \<open>
  \<open>applyTheme\<close>. A name that is not registered is logged and nothing changes. Otherwise
  the steps run in the order of the source; \<open>classList.add\<close> is the one step that can
  throw, and then the steps before it have taken effect.
\<close>

definition applyTheme :: "string \<Rightarrow> theme_state \<Rightarrow> unit completion \<times> theme_state" where
  "applyTheme themeName st =
     (case map_of (themes st) themeName of
        None \<Rightarrow> (Returned (), st\<lparr> theme_console := theme_console st @ [ThemeNotFound themeName] \<rparr>)
      | Some th \<Rightarrow>
          (let st1 = st\<lparr> css_vars := set_properties (theme_colors th) (css_vars st),
                         currentTheme := themeName,
                         body_className := strip_theme_classes (body_className st) \<rparr>
           in case classList_add (''theme-'' @ themeName) (body_className st1) of
                Inl e \<Rightarrow> (Raised e, st1)
              | Inr cn \<Rightarrow>
                  (let st2 = saveTheme themeName (st1\<lparr> body_className := cn \<rparr>);
                       st3 = st2\<lparr> theme_events := theme_events st2 @ [(themeName, theme_colors th)] \<rparr>
                   in (Returned (), updateThemeSelector st3))))"

text \<open>\<open>addCustomTheme\<close>: the display name is the key with its first letter in upper case.\<close>

definition capitalise :: "string \<Rightarrow> string" where
  "capitalise s = (case s of [] \<Rightarrow> [] | c # cs \<Rightarrow> upper_char c # cs)"

definition addCustomTheme :: "string \<Rightarrow> colors \<Rightarrow> theme_state \<Rightarrow> bool \<times> theme_state" where
  "addCustomTheme n cols st =
     (case map_of (themes st) n of
        Some th \<Rightarrow> (False, st\<lparr> theme_console := theme_console st @ [ThemeExists n] \<rparr>)
      | None \<Rightarrow>
          (True, st\<lparr> themes := themes st @ [(n, \<lparr> theme_name = capitalise n, theme_colors = cols \<rparr>)] \<rparr>))"

definition builtin_names :: "string list" where
  "builtin_names = [''cafe'', ''dark'', ''ocean'', ''forest'']"

text \<open>
  \<open>removeCustomTheme\<close>. The completion is that of the call: when the removed theme was
  the current one, \<open>applyTheme('cafe')\<close> runs and what it raises is not caught here.
\<close>

definition removeCustomTheme :: "string \<Rightarrow> theme_state \<Rightarrow> bool completion \<times> theme_state" where
  "removeCustomTheme n st =
     (if n \<in> set builtin_names then
        (Returned False, st\<lparr> theme_console := theme_console st @ [BuiltinTheme n] \<rparr>)
      else (case map_of (themes st) n of
        None \<Rightarrow> (Returned False, st\<lparr> theme_console := theme_console st @ [ThemeNotFound n] \<rparr>)
      | Some th \<Rightarrow>
          (let st1 = st\<lparr> themes := filter (\<lambda>(k, t). k \<noteq> n) (themes st) \<rparr>
           in if currentTheme st1 = n then
                (case applyTheme ''cafe'' st1 of
                   (Returned u, st2) \<Rightarrow> (Returned True, st2)
                 | (Raised e, st2) \<Rightarrow> (Raised e, st2))
              else (Returned True, st1))))"

text \<open>
  \<open>exportTheme\<close>, with \<open>now\<close> the value of \<open>Date.now()\<close>; reading \<open>colors\<close> of a current
  theme that is not registered throws.
\<close>

definition exportTheme :: "theme_state \<Rightarrow> int \<Rightarrow> theme_data completion" where
  "exportTheme st now =
     (case map_of (themes st) (currentTheme st) of
        None \<Rightarrow> Raised TypeError
      | Some th \<Rightarrow>
          Returned \<lparr> td_name = Some (currentTheme st), td_colors = Some (theme_colors th),
                     td_timestamp = Some now \<rparr>)"

text \<open>
  \<open>importTheme\<close>: a name that is absent or empty, or absent colours, is an error; every
  error of the \<open>try\<close> block is logged and answered with \<open>false\<close>. The answer of
  \<open>addCustomTheme\<close> is not looked at.
\<close>

definition importTheme :: "theme_data \<Rightarrow> theme_state \<Rightarrow> bool \<times> theme_state" where
  "importTheme themeData st =
     (case (td_name themeData, td_colors themeData) of
        (Some n, Some cols) \<Rightarrow>
          (if n = [] then
             (False, st\<lparr> theme_console := theme_console st @ [ImportFailed InvalidThemeData] \<rparr>)
           else
             (case applyTheme n (snd (addCustomTheme n cols st)) of
                (Returned u, st2) \<Rightarrow> (True, st2)
              | (Raised e, st2) \<Rightarrow>
                  (False, st2\<lparr> theme_console := theme_console st2 @ [ImportFailed e] \<rparr>)))
      | _ \<Rightarrow> (False, st\<lparr> theme_console := theme_console st @ [ImportFailed InvalidThemeData] \<rparr>))"

section \<open>ProjectsManager (js/projects.js)\<close>

text \<open>
  A project of the catalog. The property \<open>id\<close> is the field \<open>project_id\<close> and \<open>name\<close> is
  \<open>project_name\<close>. A string property that a data file leaves out is modelled by the
  empty string: the code only tests such a property for truthiness or hands it to
  \<open>Date\<close>, and the empty string is falsy and is no date, like \<open>undefined\<close>.
\<close>

record project =
  project_id :: string
  project_name :: string
  description :: string
  icon :: string
  technologies :: "string list"
  github :: string
  demo :: "string option"
  featured :: bool
  createdAt :: string
  status :: string
  color :: string
  language :: string

record settings =
  showFeaturedFirst :: bool

text \<open>The argument of \<open>addProject\<close>: every property may be absent.\<close>

record project_input =
  in_id :: "string option"
  in_name :: "string option"
  in_description :: "string option"
  in_icon :: "string option"
  in_technologies :: "string list option"
  in_github :: "string option"
  in_demo :: "string option"
  in_featured :: "bool option"
  in_color :: "string option"
  in_language :: "string option"

text \<open>
  What the grid element shows: the loading text, the placeholder for no projects, or
  one card per project in the order given.
\<close>

datatype grid_content = Loading | NoProjects | Cards "project list"

datatype projects_diag =
    LoadFailed js_error
  | GridNotFound
  | StorageSaveFailed

record saved_catalog =
  saved_projects :: "project list"
  saved_settings :: settings
  saved_timestamp :: int

text \<open>
  The manager (\<open>projects\<close>, \<open>filteredProjects\<close>, \<open>settings\<close>, \<open>isLoaded\<close>) and the part of
  the browser it works on: the grid element (\<open>None\<close> when the page has none), the
  \<open>projectsDisplayed\<close> events dispatched, the console, the entry \<open>portfolioProjects\<close> of
  the local storage (and whether writing it succeeds) and \<open>date_value\<close>, the time value
  that \<open>new Date(s)\<close> has for a string (\<open>None\<close> for an invalid date, whose time value is
  \<open>NaN\<close>).
\<close>

record projects_state =
  projects :: "project list"
  filteredProjects :: "project list"
  settings :: settings
  isLoaded :: bool
  grid :: "grid_content option"
  displayed :: "project list list"
  projects_console :: "projects_diag list"
  portfolioProjects :: "saved_catalog option"
  catalog_writable :: bool
  date_value :: "string \<Rightarrow> int option"

definition new_ProjectsManager ::
  "grid_content option \<Rightarrow> (string \<Rightarrow> int option) \<Rightarrow> projects_state" where
  "new_ProjectsManager g dv =
     \<lparr> projects = [], filteredProjects = [], settings = \<lparr> showFeaturedFirst = False \<rparr>,
       isLoaded = False, grid = g, displayed = [], projects_console = [],
       portfolioProjects = None, catalog_writable = True, date_value = dv \<rparr>"

text \<open>The hard-coded project of \<open>loadFallbackData\<close>; its description is UTF-8 text.\<close>

definition fallback_project :: project where
  "fallback_project =
     \<lparr> project_id = ''gominage'',
       project_name = ''gominage'',
       description =
         (''HTML5 Canvas'' @
          map char_of
            [227, 130, 146, 228, 189, 191, 231, 148, 168, 227, 129, 151, 227, 129, 159, 227,
             131, 150, 227, 131, 169, 227, 130, 166, 227, 130, 182, 227, 130, 178, 227, 131,
             188, 227, 131, 160, 227, 128, 130 :: nat] @
          ''JavaScript ES6+'' @
          map char_of
            [227, 129, 168, 227, 130, 171, 227, 130, 185, 227, 130, 191, 227, 131, 160, 231,
             137, 169, 231, 144, 134, 227, 130, 183, 227, 131, 159, 227, 131, 165, 227, 131,
             172, 227, 131, 188, 227, 130, 183, 227, 131, 167, 227, 131, 179, 227, 129, 167,
             233, 150, 139, 231, 153, 186, 227, 129, 149, 227, 130, 140, 227, 129, 159, 227,
             130, 175, 227, 131, 169, 227, 130, 164, 227, 130, 162, 227, 131, 179, 227, 131,
             136, 227, 130, 181, 227, 130, 164, 227, 131, 137, 227, 130, 178, 227, 131, 188,
             227, 131, 160, 227, 129, 167, 227, 129, 153, 227, 128, 130 :: nat]),
       icon = ''fab fa-js-square'',
       technologies = [''JavaScript'', ''HTML5'', ''CSS3'', ''Canvas''],
       github = ''https://github.com/minngk/gominage'',
       demo = None,
       featured = True,
       createdAt = ''2025-01-01'',
       status = ''active'',
       color = ''#F7DF1E'',
       language = ''JavaScript'' \<rparr>"

definition loadFallbackData :: "projects_state \<Rightarrow> projects_state" where
  "loadFallbackData st =
     st\<lparr> projects := [fallback_project], filteredProjects := [fallback_project],
         isLoaded := True \<rparr>"

text \<open>
  The parsed data file. \<open>data.projects\<close> is falsy (\<open>NoProjectList\<close>), an array of
  projects, or a truthy value that cannot be spread (\<open>NotIterable\<close>); \<open>data.settings\<close> is
  absent or an object. A file that is the literal \<open>null\<close> is \<open>NullData\<close>.
\<close>

datatype projects_json = NoProjectList | ProjectArray "project list" | NotIterable

datatype data_file = NullData | Data projects_json "settings option"

text \<open>
  The \<open>try\<close> block of \<open>loadProjects\<close>: the error thrown, if any, and the state at that
  moment. When the spread of \<open>data.projects\<close> throws, \<open>settings\<close> has been assigned
  already; \<open>projects\<close> holds the value that is not an array until the \<open>catch\<close> block
  replaces it, which the model leaves out.
\<close>

definition load_try :: "data_file fetch_result \<Rightarrow> projects_state \<Rightarrow> js_error option \<times> projects_state" where
  "load_try net st =
     (case net of
        Rejected \<Rightarrow> (Some NetworkFailure, st)
      | Response code body \<Rightarrow>
          if \<not> ok code then (Some (StatusError code), st)
          else (case body of
                  None \<Rightarrow> (Some JsonSyntaxError, st)
                | Some NullData \<Rightarrow> (Some TypeError, st)
                | Some (Data pj so) \<Rightarrow>
                    (let s = (case so of None \<Rightarrow> \<lparr> showFeaturedFirst = False \<rparr> | Some s' \<Rightarrow> s')
                     in case pj of
                          NotIterable \<Rightarrow> (Some TypeError, st\<lparr> settings := s \<rparr>)
                        | NoProjectList \<Rightarrow>
                            (None, st\<lparr> projects := [], settings := s, filteredProjects := [],
                                       isLoaded := True \<rparr>)
                        | ProjectArray ps \<Rightarrow>
                            (None, st\<lparr> projects := ps, settings := s, filteredProjects := ps,
                                       isLoaded := True \<rparr>))))"

definition loadProjects ::
  "data_file fetch_result \<Rightarrow> projects_state \<Rightarrow> project list completion \<times> projects_state" where
  "loadProjects net st =
     (case load_try net st of
        (None, st1) \<Rightarrow> (Returned (projects st1), st1)
      | (Some e, st1) \<Rightarrow>
          (let st2 = loadFallbackData (st1\<lparr> projects_console := projects_console st1 @ [LoadFailed e] \<rparr>)
           in (Returned (projects st2), st2)))"

text \<open>A failure to load the data file: transport, status or parse.\<close>

definition load_failed :: "data_file fetch_result \<Rightarrow> bool" where
  "load_failed net =
     (case net of Rejected \<Rightarrow> True | Response code body \<Rightarrow> \<not> ok code \<or> body = None)"

text \<open>
  The answers on which the \<open>try\<close> block runs to its end: an ok status and a body that
  parses to something other than \<open>null\<close> whose \<open>projects\<close> can be spread.
\<close>

definition load_succeeds :: "data_file fetch_result \<Rightarrow> bool" where
  "load_succeeds net =
     (case net of
        Rejected \<Rightarrow> False
      | Response code body \<Rightarrow>
          ok code \<and>
          (case body of
             None \<Rightarrow> False
           | Some NullData \<Rightarrow> False
           | Some (Data pj so) \<Rightarrow> pj \<noteq> NotIterable))"

definition iconMap :: "(string \<times> string) list" where
  "iconMap =
     [(''Go'', ''fab fa-golang''),
      (''JavaScript'', ''fab fa-js-square''),
      (''TypeScript'', ''fab fa-js-square''),
      (''Python'', ''fab fa-python''),
      (''React'', ''fab fa-react''),
      (''Vue'', ''fab fa-vuejs''),
      (''Node.js'', ''fab fa-node-js''),
      (''HTML'', ''fab fa-html5''),
      (''CSS'', ''fab fa-css3-alt''),
      (''PHP'', ''fab fa-php''),
      (''Java'', ''fab fa-java''),
      (''C++'', ''fas fa-code''),
      (''C#'', ''fas fa-code''),
      (''Ruby'', ''fas fa-gem''),
      (''Rust'', ''fas fa-cog''),
      (''Swift'', ''fab fa-swift''),
      (''Kotlin'', ''fas fa-mobile-alt'')]"

text \<open>\<open>getLanguageIcon\<close>; the argument may be \<open>undefined\<close>.\<close>

definition getLanguageIcon :: "string option \<Rightarrow> string" where
  "getLanguageIcon l =
     (case l of
        None \<Rightarrow> ''fas fa-code''
      | Some k \<Rightarrow> (case map_of iconMap k of None \<Rightarrow> ''fas fa-code'' | Some i \<Rightarrow> i))"

text \<open>
  The comparison function of \<open>displayProjects\<close>. The difference of two dates is \<open>NaN\<close>
  (\<open>None\<close>) when one of them is invalid.
\<close>

definition compare_projects :: "(string \<Rightarrow> int option) \<Rightarrow> project \<Rightarrow> project \<Rightarrow> int option" where
  "compare_projects dv a b =
     (if featured a \<and> \<not> featured b then Some (- 1)
      else if \<not> featured a \<and> featured b then Some 1
      else (case (dv (createdAt b), dv (createdAt a)) of
              (Some tb, Some ta) \<Rightarrow> Some (tb - ta)
            | _ \<Rightarrow> None))"

text \<open>
  \<open>Array.prototype.sort\<close> with a comparison function: the sort is stable, \<open>a\<close> comes
  before \<open>b\<close> when the function is negative, and \<open>NaN\<close> counts as \<open>0\<close>. The language
  fixes the result for a consistent comparison function and leaves the algorithm open;
  the model is the stable insertion sort.
\<close>

definition not_after :: "('a \<Rightarrow> 'a \<Rightarrow> int option) \<Rightarrow> 'a \<Rightarrow> 'a \<Rightarrow> bool" where
  "not_after cmp a b = (case cmp a b of None \<Rightarrow> True | Some v \<Rightarrow> v \<le> 0)"

fun insert_sorted :: "('a \<Rightarrow> 'a \<Rightarrow> int option) \<Rightarrow> 'a \<Rightarrow> 'a list \<Rightarrow> 'a list" where
  "insert_sorted cmp x [] = [x]"
| "insert_sorted cmp x (y # ys) =
     (if not_after cmp x y then x # y # ys else y # insert_sorted cmp x ys)"

definition array_sort :: "('a \<Rightarrow> 'a \<Rightarrow> int option) \<Rightarrow> 'a list \<Rightarrow> 'a list" where
  "array_sort cmp xs = foldr (insert_sorted cmp) xs []"

text \<open>
  \<open>displayProjects\<close> for a given list; without the grid element it logs an error and
  returns. The loading text it writes first is overwritten before it returns.
\<close>

definition displayProjects :: "project list \<Rightarrow> projects_state \<Rightarrow> projects_state" where
  "displayProjects ps st =
     (case grid st of
        None \<Rightarrow> st\<lparr> projects_console := projects_console st @ [GridNotFound] \<rparr>
      | Some g \<Rightarrow>
          (let sortedProjects =
                 (if showFeaturedFirst (settings st)
                  then array_sort (compare_projects (date_value st)) ps else ps)
           in st\<lparr> grid := Some (if sortedProjects = [] then NoProjects else Cards sortedProjects),
                   displayed := displayed st @ [sortedProjects] \<rparr>))"

text \<open>\<open>displayProjects()\<close>: the default argument is \<open>this.filteredProjects\<close>.\<close>

definition displayFiltered :: "projects_state \<Rightarrow> projects_state" where
  "displayFiltered st = displayProjects (filteredProjects st) st"

text \<open>An argument is falsy when it is absent or the empty string.\<close>

definition falsy :: "string option \<Rightarrow> bool" where
  "falsy x = (case x of None \<Rightarrow> True | Some s \<Rightarrow> s = [])"

definition filterByTechnology :: "string option \<Rightarrow> projects_state \<Rightarrow> projects_state" where
  "filterByTechnology tech st =
     displayFiltered
       (case tech of
          None \<Rightarrow> st\<lparr> filteredProjects := projects st \<rparr>
        | Some t \<Rightarrow>
            if t = [] then st\<lparr> filteredProjects := projects st \<rparr>
            else st\<lparr> filteredProjects :=
                      filter (\<lambda>p. \<exists>x \<in> set (technologies p).
                                     includes_str (toLowerCase x) (toLowerCase t))
                        (projects st) \<rparr>)"

definition filterByLanguage :: "string option \<Rightarrow> projects_state \<Rightarrow> projects_state" where
  "filterByLanguage lang st =
     displayFiltered
       (case lang of
          None \<Rightarrow> st\<lparr> filteredProjects := projects st \<rparr>
        | Some l \<Rightarrow>
            if l = [] then st\<lparr> filteredProjects := projects st \<rparr>
            else st\<lparr> filteredProjects :=
                      filter (\<lambda>p. language p \<noteq> [] \<and> toLowerCase (language p) = toLowerCase l)
                        (projects st) \<rparr>)"

definition searchProjects :: "string option \<Rightarrow> projects_state \<Rightarrow> projects_state" where
  "searchProjects query st =
     displayFiltered
       (case query of
          None \<Rightarrow> st\<lparr> filteredProjects := projects st \<rparr>
        | Some q \<Rightarrow>
            if q = [] then st\<lparr> filteredProjects := projects st \<rparr>
            else
              (let searchTerm = toLowerCase q
               in st\<lparr> filteredProjects :=
                        filter (\<lambda>p. includes_str (toLowerCase (project_name p)) searchTerm \<or>
                                    includes_str (toLowerCase (description p)) searchTerm \<or>
                                    (\<exists>x \<in> set (technologies p).
                                       includes_str (toLowerCase x) searchTerm))
                          (projects st) \<rparr>))"

text \<open>The decimal numeral of a counter, as a template literal prints it.\<close>

fun show_nat :: "nat \<Rightarrow> string" where
  "show_nat n =
     (if n < 10 then [char_of (48 + n)]
      else show_nat (n div 10) @ [char_of (48 + n mod 10)])"

text \<open>
  The three replacements of \<open>generateId\<close>: every character outside \<open>a-z0-9\<close> becomes a
  dash, runs of dashes become one dash, and a dash at the start and a dash at the end
  are removed.
\<close>

definition dash_others :: "string \<Rightarrow> string" where
  "dash_others s = map (\<lambda>c. if is_lower c \<or> is_digit c then c else CHR ''-'') s"

fun collapse_dashes :: "string \<Rightarrow> string" where
  "collapse_dashes (a # b # cs) =
     (if a = CHR ''-'' \<and> b = CHR ''-'' then collapse_dashes (b # cs)
      else a # collapse_dashes (b # cs))"
| "collapse_dashes cs = cs"

definition trim_dashes :: "string \<Rightarrow> string" where
  "trim_dashes s =
     (let s1 = (case s of [] \<Rightarrow> [] | c # cs \<Rightarrow> if c = CHR ''-'' then cs else c # cs)
      in if s1 \<noteq> [] \<and> last s1 = CHR ''-'' then butlast s1 else s1)"

definition baseId :: "string \<Rightarrow> string" where
  "baseId n = trim_dashes (collapse_dashes (dash_others (toLowerCase n)))"

definition suffixed :: "string \<Rightarrow> nat \<Rightarrow> string" where
  "suffixed b counter = b @ ''-'' @ show_nat counter"

text \<open>
  Reading a decimal numeral back shows that different counters print differently, which
  is why the loop of \<open>generateId\<close> ends.
\<close>

definition read_nat :: "string \<Rightarrow> nat" where
  "read_nat s = foldl (\<lambda>a c. 10 * a + (char_code c - 48)) 0 s"

lemma read_nat_snoc: "read_nat (s @ [c]) = 10 * read_nat s + (char_code c - 48)"
  by (simp add: read_nat_def)

lemma read_show_nat: "read_nat (show_nat n) = n"
proof (induction n rule: show_nat.induct)
  case (1 n)
  show ?case
  proof (cases "n < 10")
    case True
    then have "show_nat n = [char_of (48 + n)]" by simp
    with True show ?thesis by (simp add: read_nat_def char_code_def)
  next
    case False
    then have s: "show_nat n = show_nat (n div 10) @ [char_of (48 + n mod 10)]" by simp
    have "n mod 10 < 10" by simp
    then have d: "char_code (char_of (48 + n mod 10)) - 48 = n mod 10"
      by (simp add: char_code_def)
    from False "1.IH" have "read_nat (show_nat (n div 10)) = n div 10" by simp
    with d show ?thesis by (simp only: s read_nat_snoc) simp
  qed
qed

lemma suffixed_inject: "suffixed b j = suffixed b k \<Longrightarrow> j = k"
proof -
  assume "suffixed b j = suffixed b k"
  then have "show_nat j = show_nat k" by (simp add: suffixed_def)
  then have "read_nat (show_nat j) = read_nat (show_nat k)" by simp
  then show "j = k" by (simp only: read_show_nat)
qed

lemma finite_taken: "finite {k. suffixed b k \<in> set ids}"
proof -
  have "inj (suffixed b)" by (rule injI) (rule suffixed_inject)
  then have "finite (suffixed b -` set ids)" by (intro finite_vimageI) simp_all
  then show ?thesis by (simp add: vimage_def)
qed

text \<open>
  The loop of \<open>generateId\<close>: \<open>cand\<close> is the variable \<open>id\<close>, tried against the identifiers
  of the catalog; while it is taken, the next candidate is the base with the counter.
\<close>

function generateId_loop :: "string list \<Rightarrow> string \<Rightarrow> string \<Rightarrow> nat \<Rightarrow> string" where
  "generateId_loop ids b cand counter =
     (if cand \<in> set ids then generateId_loop ids b (suffixed b counter) (counter + 1)
      else cand)"
  by pat_completeness auto
termination
proof (relation "measure (\<lambda>(ids, b, cand, counter).
    card {k. counter \<le> k \<and> suffixed b k \<in> set ids} + (if cand \<in> set ids then 1 else 0))")
  show "wf (measure (\<lambda>(ids, b, cand, counter).
    card {k. counter \<le> k \<and> suffixed b k \<in> set ids} + (if cand \<in> set ids then 1 else 0)))"
    by simp
next
  fix ids :: "string list" and b cand :: string and counter :: nat
  assume taken: "cand \<in> set ids"
  let ?A = "{k. counter \<le> k \<and> suffixed b k \<in> set ids}"
  let ?B = "{k. counter + 1 \<le> k \<and> suffixed b k \<in> set ids}"
  have fin: "finite ?A"
    by (rule finite_subset [OF _ finite_taken [of b ids]]) auto
  have "card ?B + (if suffixed b counter \<in> set ids then 1 else 0) = card ?A"
  proof (cases "suffixed b counter \<in> set ids")
    case True
    then have "?A = insert counter ?B" by (auto simp: le_Suc_eq)
    moreover have "counter \<notin> ?B" by simp
    moreover have "finite ?B"
      by (rule finite_subset [OF _ fin]) auto
    ultimately show ?thesis using True by simp
  next
    case False
    then have "?A = ?B"
      by (auto simp: Suc_le_eq le_less)
    with False show ?thesis by simp
  qed
  with taken show "((ids, b, suffixed b counter, counter + 1), (ids, b, cand, counter))
      \<in> measure (\<lambda>(ids, b, cand, counter).
          card {k. counter \<le> k \<and> suffixed b k \<in> set ids} + (if cand \<in> set ids then 1 else 0))"
    by simp
qed

declare generateId_loop.simps [simp del]

definition generateId :: "string \<Rightarrow> projects_state \<Rightarrow> string" where
  "generateId n st = generateId_loop (map project_id (projects st)) (baseId n) (baseId n) 1"

text \<open>\<open>saveToLocalStorage\<close>, with \<open>now\<close> the value of \<open>Date.now()\<close>.\<close>

definition saveToLocalStorage :: "int \<Rightarrow> projects_state \<Rightarrow> projects_state" where
  "saveToLocalStorage now st =
     (if catalog_writable st then
        st\<lparr> portfolioProjects :=
              Some \<lparr> saved_projects = projects st, saved_settings = settings st,
                     saved_timestamp = now \<rparr> \<rparr>
      else st\<lparr> projects_console := projects_console st @ [StorageSaveFailed] \<rparr>)"

text \<open>\<open>x || d\<close> for a string property that may be absent.\<close>

definition str_or :: "string option \<Rightarrow> string \<Rightarrow> string" where
  "str_or x d = (case x of None \<Rightarrow> d | Some s \<Rightarrow> if s = [] then d else s)"

text \<open>
  \<open>addProject\<close>, with \<open>iso_now\<close> the value of \<open>new Date().toISOString()\<close> and \<open>now\<close> that of
  \<open>Date.now()\<close>. The validation throws before anything is changed.
\<close>

definition addProject ::
  "project_input \<Rightarrow> string \<Rightarrow> int \<Rightarrow> projects_state \<Rightarrow> project completion \<times> projects_state" where
  "addProject projectData iso_now now st =
     (if falsy (in_name projectData) \<or> falsy (in_github projectData) then
        (Raised ValidationError, st)
      else
        (let n = str_or (in_name projectData) [];
             i = (if falsy (in_id projectData) then generateId n st
                  else str_or (in_id projectData) []);
             newProject =
               \<lparr> project_id = i,
                 project_name = n,
                 description = str_or (in_description projectData) [],
                 icon = str_or (in_icon projectData) (getLanguageIcon (in_language projectData)),
                 technologies = (case in_technologies projectData of None \<Rightarrow> [] | Some ts \<Rightarrow> ts),
                 github = str_or (in_github projectData) [],
                 demo = (if falsy (in_demo projectData) then None else in_demo projectData),
                 featured = (case in_featured projectData of None \<Rightarrow> False | Some f \<Rightarrow> f),
                 createdAt = iso_now,
                 status = ''active'',
                 color = str_or (in_color projectData) ''#333'',
                 language = str_or (in_language projectData) ''Other'' \<rparr>;
             st1 = st\<lparr> projects := newProject # projects st,
                        filteredProjects := newProject # projects st \<rparr>
         in (Returned newProject, saveToLocalStorage now (displayFiltered st1))))"

text \<open>
  \<open>addProject\<close> writes a generated identifier into its argument
  (\<open>projectData.id = this.generateId(...)\<close>): the object the caller holds after the call.
\<close>

definition addProject_argument :: "project_input \<Rightarrow> projects_state \<Rightarrow> project_input" where
  "addProject_argument projectData st =
     (if falsy (in_name projectData) \<or> falsy (in_github projectData) then projectData
      else if falsy (in_id projectData) then
        projectData\<lparr> in_id := Some (generateId (str_or (in_name projectData) []) st) \<rparr>
      else projectData)"

text \<open>A sequence of \<open>addProject\<close> calls; a call that throws leaves the state as it is.\<close>

fun addProjects :: "(project_input \<times> string \<times> int) list \<Rightarrow> projects_state \<Rightarrow> projects_state" where
  "addProjects [] st = st"
| "addProjects ((projectData, iso_now, now) # calls) st =
     addProjects calls (snd (addProject projectData iso_now now st))"

text \<open>The argument \<open>{name: n, github: g}\<close> and the empty argument \<open>{}\<close>.\<close>

definition no_input :: project_input where
  "no_input =
     \<lparr> in_id = None, in_name = None, in_description = None, in_icon = None,
       in_technologies = None, in_github = None, in_demo = None, in_featured = None,
       in_color = None, in_language = None \<rparr>"

definition named_input :: "string \<Rightarrow> string \<Rightarrow> project_input" where
  "named_input n g = no_input\<lparr> in_name := Some n, in_github := Some g \<rparr>"

text \<open>
  The time value of a date-only string \<open>YYYY-MM-DD\<close> of the ECMAScript date-time string
  format: midnight UTC of that day, in milliseconds since the epoch. It serves as
  \<open>date_value\<close> in examples whose dates have this form; every other string is no date
  here.
\<close>

definition decimal :: "string \<Rightarrow> nat option" where
  "decimal s = (if s \<noteq> [] \<and> list_all is_digit s then Some (read_nat s) else None)"

definition leap_year :: "int \<Rightarrow> bool" where
  "leap_year y = (y mod 4 = 0 \<and> (y mod 100 \<noteq> 0 \<or> y mod 400 = 0))"

definition days_in_month :: "int \<Rightarrow> int \<Rightarrow> int" where
  "days_in_month y m =
     (if m = 2 then (if leap_year y then 29 else 28)
      else if m \<in> {4, 6, 9, 11} then 30 else 31)"

definition days_from_civil :: "int \<Rightarrow> int \<Rightarrow> int \<Rightarrow> int" where
  "days_from_civil y m d =
     (let y' = (if m \<le> 2 then y - 1 else y);
          era = y' div 400;
          yoe = y' - era * 400;
          doy = (153 * (if m > 2 then m - 3 else m + 9) + 2) div 5 + d - 1;
          doe = yoe * 365 + yoe div 4 - yoe div 100 + doy
      in era * 146097 + doe - 719468)"

definition date_only_value :: "string \<Rightarrow> int option" where
  "date_only_value s =
     (if length s = 10 \<and> s ! 4 = CHR ''-'' \<and> s ! 7 = CHR ''-'' then
        (case (decimal (take 4 s), decimal (take 2 (drop 5 s)), decimal (drop 8 s)) of
           (Some y, Some m, Some d) \<Rightarrow>
             if 1 \<le> m \<and> m \<le> 12 \<and> 1 \<le> d \<and> int d \<le> days_in_month (int y) (int m)
             then Some (days_from_civil (int y) (int m) (int d) * 86400000)
             else None
         | _ \<Rightarrow> None)
      else None)"

text \<open>
  The order the specification words for the featured-first view, to be compared with
  the comparison function of the code: \<open>a\<close> may stand before \<open>b\<close> when \<open>featured\<close> does not
  increase from \<open>a\<close> to \<open>b\<close> and, where both agree on \<open>featured\<close>, \<open>a\<close> was created no
  earlier than \<open>b\<close>.
\<close>

definition featured_then_newest :: "(string \<Rightarrow> int option) \<Rightarrow> project \<Rightarrow> project \<Rightarrow> bool" where
  "featured_then_newest dv a b =
     ((featured b \<longrightarrow> featured a) \<and>
      (featured a = featured b \<longrightarrow>
         (case (dv (createdAt a), dv (createdAt b)) of
            (Some ta, Some tb) \<Rightarrow> tb \<le> ta
          | _ \<Rightarrow> False)))"

section \<open>Example states\<close>

text \<open>
  The catalog after \<open>loadFallbackData\<close> on a page with a grid element, and three
  projects that differ in \<open>featured\<close> and \<open>createdAt\<close>.
\<close>

definition fallback_state :: projects_state where
  "fallback_state = loadFallbackData (new_ProjectsManager (Some Loading) date_only_value)"

definition example_project :: "string \<Rightarrow> bool \<Rightarrow> string \<Rightarrow> project" where
  "example_project n f d =
     fallback_project\<lparr> project_id := n, project_name := n, featured := f, createdAt := d \<rparr>"

definition project_A :: project where
  "project_A = example_project ''a'' False ''2024-01-01''"

definition project_B :: project where
  "project_B = example_project ''b'' True ''2023-01-01''"

definition project_C :: project where
  "project_C = example_project ''c'' False ''2024-06-01''"

definition featured_first_state :: projects_state where
  "featured_first_state =
     (new_ProjectsManager (Some Loading) date_only_value)
       \<lparr> projects := [project_A, project_B, project_C],
         filteredProjects := [project_A, project_B, project_C],
         settings := \<lparr> showFeaturedFirst = True \<rparr>, isLoaded := True \<rparr>"

text \<open>
  The state after a successful response stored while the clock reads \<open>0\<close>, and the state
  after one stored at the clock reading \<open>1000\<close>.
\<close>

text \<open>
  The same catalog with \<open>showFeaturedFirst\<close> off, and that state after a filter for
  the language Ruby, which no project has, so that the view is empty.
\<close>

definition plain_state :: projects_state where
  "plain_state = featured_first_state\<lparr> settings := \<lparr> showFeaturedFirst = False \<rparr> \<rparr>"

definition narrowed_state :: projects_state where
  "narrowed_state = filterByLanguage (Some ''Ruby'') plain_state"

definition profile_body :: json where
  "profile_body = JObj [(''public_repos'', JNum 7), (''followers'', JNum 3)]"

definition epoch_api :: GitHubAPI where
  "epoch_api =
     api_after (fetchUserData (new_GitHubAPI ''minngk'') 0 0 (Response 200 (Some profile_body)))"

definition cached_api :: GitHubAPI where
  "cached_api =
     api_after (fetchUserData (new_GitHubAPI ''minngk'') 1000 1000 (Response 200 (Some profile_body)))"

section \<open>Properties of GitHubAPI\<close>

lemma fetch_try_failed: "call_failed net \<Longrightarrow> \<exists>e. fetch_try api now' net = Inl e"
  by (cases net) (simp_all add: call_failed_def fetch_try_def)

lemma ttl_new_GitHubAPI: "ttl (cache (new_GitHubAPI u)) = 300000"
  by (simp add: new_GitHubAPI_def)

text \<open>
  Claim C1. For an entry with snapshot \<open>s\<close> and capture timestamp \<open>T\<close>, a value that
  \<open>Date.now()\<close> gave when the response was stored and so not \<open>0\<close>, the cache is valid
  exactly when \<open>now - T < ttl\<close>; a call strictly before \<open>T + ttl\<close> returns the cached
  snapshot, issues no request and changes nothing; a call at \<open>T + ttl\<close> or later issues
  exactly one request, and so does a call when no entry exists. The time-to-live is five
  minutes (300000 ms) and no call changes it.
\<close>

theorem cache_validity:
  "(data (cache api) = Some s \<and> timestamp (cache api) = Some T \<and> T \<noteq> 0 \<longrightarrow>
      (isCacheValid api now \<longleftrightarrow> now - T < ttl (cache api)) \<and>
      (now < T + ttl (cache api) \<longrightarrow>
         fetchUserData api now now' net =
           \<lparr> completion = Returned (Some s), api_after = api, requests = 0, warnings = [] \<rparr>) \<and>
      (T + ttl (cache api) \<le> now \<longrightarrow> requests (fetchUserData api now now' net) = 1)) \<and>
   (data (cache api) = None \<or> timestamp (cache api) = None \<longrightarrow>
      requests (fetchUserData api now now' net) = 1) \<and>
   ttl (cache (api_after (fetchUserData api now now' net))) = ttl (cache api) \<and>
   ttl (cache (new_GitHubAPI u)) = 5 * 60 * 1000"
  by (auto simp: isCacheValid_def fetchUserData_def fetch_try_def new_GitHubAPI_def
      split: option.splits sum.splits fetch_result.splits if_splits)

theorem cache_validity_witness:
  "data (cache cached_api) \<noteq> None \<and> timestamp (cache cached_api) = Some 1000 \<and>
   ttl (cache cached_api) = 300000 \<and>
   requests (fetchUserData cached_api 300999 300999 Rejected) = 0 \<and>
   completion (fetchUserData cached_api 300999 300999 Rejected) =
     Returned (data (cache cached_api)) \<and>
   requests (fetchUserData cached_api 301000 301000 Rejected) = 1"
proof -
  obtain s where s: "data (cache cached_api) = Some s"
    by (simp add: cached_api_def fetchUserData_def isCacheValid_def new_GitHubAPI_def
        fetch_try_def ok_def normalise_def profile_body_def)
  have t: "timestamp (cache cached_api) = Some 1000"
    by (simp add: cached_api_def fetchUserData_def isCacheValid_def new_GitHubAPI_def
        fetch_try_def ok_def normalise_def profile_body_def)
  have l: "ttl (cache cached_api) = 300000"
    by (simp add: cached_api_def fetchUserData_def isCacheValid_def new_GitHubAPI_def
        fetch_try_def ok_def normalise_def profile_body_def)
  from cache_validity [of cached_api s 1000 300999 300999 Rejected] s t l
  have a: "fetchUserData cached_api 300999 300999 Rejected =
      \<lparr> completion = Returned (Some s), api_after = cached_api, requests = 0, warnings = [] \<rparr>"
    by simp
  from cache_validity [of cached_api s 1000 301000 301000 Rejected] s t l
  have b: "requests (fetchUserData cached_api 301000 301000 Rejected) = 1"
    by simp
  show ?thesis using s t l a b by simp
qed

text \<open>
  Why the timestamp \<open>0\<close> is set apart: the presence test of \<open>isCacheValid\<close> takes it
  for an absent timestamp. Such an entry is stored only when the clock reads exactly \<open>0\<close>,
  the first millisecond of 1970, at the moment a response arrives.
\<close>

lemma epoch_timestamp_absent:
  "timestamp (cache epoch_api) = Some 0 \<and> data (cache epoch_api) \<noteq> None \<and>
   ttl (cache epoch_api) = 300000 \<and> (1::int) < 0 + 300000 \<and>
   \<not> isCacheValid epoch_api 1 \<and>
   requests (fetchUserData epoch_api 1 1 Rejected) = 1 \<and>
   completion (fetchUserData epoch_api 1 1 Rejected) \<noteq> Returned (data (cache epoch_api))"
  by (simp add: epoch_api_def fetchUserData_def isCacheValid_def new_GitHubAPI_def
        fetch_try_def ok_def normalise_def profile_body_def fallback_snapshot_def)

text \<open>
  Claim C2. When the cache is not valid, so that the remote call is made, and the call
  fails (transport error or a status outside 200 to 299), \<open>fetchUserData\<close> returns and
  does not raise; the value is the sentinel snapshot, whose three counters are the marker
  \<open>'?'\<close> and whose six text fields are empty strings; one diagnostic is recorded.
\<close>

theorem fallback_integrity:
  assumes "\<not> isCacheValid api now" and "call_failed net"
  shows "\<exists>e. fetchUserData api now now' net =
           \<lparr> completion = Returned (Some fallback_snapshot), api_after = api, requests = 1,
             warnings = [e] \<rparr> \<and>
         fallback_snapshot =
           \<lparr> public_repos = JStr ''?'', followers = JStr ''?'', following = JStr ''?'',
             avatar_url = JStr [], bio = JStr [], location = JStr [], company = JStr [],
             blog = JStr [], created_at = JStr [] \<rparr>"
proof -
  from assms(2) obtain e where "fetch_try api now' net = Inl e"
    using fetch_try_failed by blast
  with assms(1) show ?thesis
    by (simp add: fetchUserData_def fallback_snapshot_def)
qed

theorem fallback_integrity_witness:
  "\<not> isCacheValid (new_GitHubAPI ''minngk'') 5 \<and> call_failed (Response 404 None) \<and>
   call_failed Rejected \<and>
   completion (fetchUserData (new_GitHubAPI ''minngk'') 5 6 (Response 404 None)) =
     Returned (Some fallback_snapshot) \<and>
   warnings (fetchUserData (new_GitHubAPI ''minngk'') 5 6 (Response 404 None)) \<noteq> []"
proof -
  have a: "\<not> isCacheValid (new_GitHubAPI ''minngk'') 5"
    by (simp add: isCacheValid_def new_GitHubAPI_def)
  have b: "call_failed (Response 404 None)" "call_failed Rejected"
    by (simp_all add: call_failed_def ok_def)
  from fallback_integrity [OF a b(1), of 6] a b show ?thesis by auto
qed

text \<open>
  Claim C10. A failed remote call leaves the object, and so the cache entry, exactly as
  it was: the sentinel is not stored. Hence, when no valid entry existed at the failed
  call, a call at any later time \<open>t\<close> issues a new request, whatever the network answers.
\<close>

theorem failure_not_cached:
  assumes "\<not> isCacheValid api now" and "call_failed net" and "now \<le> t"
  shows "api_after (fetchUserData api now now' net) = api \<and>
         requests (fetchUserData (api_after (fetchUserData api now now' net)) t t' net') = 1"
proof -
  from assms(2) obtain e where e: "fetch_try api now' net = Inl e"
    using fetch_try_failed by blast
  with assms(1) have same: "api_after (fetchUserData api now now' net) = api"
    by (simp add: fetchUserData_def)
  have "\<not> isCacheValid api t"
    using assms(1,3) by (auto simp: isCacheValid_def split: option.splits if_splits)
  then have "requests (fetchUserData api t t' net') = 1"
    by (simp add: fetchUserData_def split: sum.splits prod.splits)
  with same show ?thesis by simp
qed

theorem failure_not_cached_witness:
  "\<not> isCacheValid (new_GitHubAPI ''minngk'') 5 \<and> call_failed (Response 503 None) \<and>
   (5::int) \<le> 7 \<and>
   api_after (fetchUserData (new_GitHubAPI ''minngk'') 5 6 (Response 503 None)) =
     new_GitHubAPI ''minngk'' \<and>
   requests (fetchUserData
     (api_after (fetchUserData (new_GitHubAPI ''minngk'') 5 6 (Response 503 None)))
     7 8 Rejected) = 1"
proof -
  have a: "\<not> isCacheValid (new_GitHubAPI ''minngk'') 5"
    by (simp add: isCacheValid_def new_GitHubAPI_def)
  have b: "call_failed (Response 503 None)"
    by (simp add: call_failed_def ok_def)
  have c: "(5::int) \<le> 7" by simp
  from failure_not_cached [OF a b c, of 6 8 Rejected] a b c show ?thesis by blast
qed

section \<open>Properties of ThemeManager\<close>

lemma set_properties_snoc:
  "set_properties (cols @ [(p, v)]) vars = setProperty (''--'' @ p) v (set_properties cols vars)"
  by (simp add: set_properties_def)

lemma set_properties_unwritten:
  "k \<notin> (\<lambda>(p, v). ''--'' @ p) ` set cols \<Longrightarrow> set_properties cols vars k = vars k"
proof (induction cols rule: rev_induct)
  case Nil
  then show ?case by (simp add: set_properties_def)
next
  case (snoc a cols)
  obtain p v where a: "a = (p, v)" by (cases a)
  from snoc.prems a have "k \<noteq> ''--'' @ p" and "k \<notin> (\<lambda>(p, v). ''--'' @ p) ` set cols"
    by auto
  with snoc.IH show ?case
    by (simp add: a set_properties_snoc setProperty_def)
qed

lemma set_properties_written:
  "k \<in> (\<lambda>(p, v). ''--'' @ p) ` set cols \<Longrightarrow>
   set_properties cols vars k = set_properties cols vars' k"
proof (induction cols rule: rev_induct)
  case Nil
  then show ?case by simp
next
  case (snoc a cols)
  obtain p v where a: "a = (p, v)" by (cases a)
  show ?case
  proof (cases "k = ''--'' @ p")
    case True
    then show ?thesis by (simp add: a set_properties_snoc setProperty_def)
  next
    case False
    with snoc.prems a have "k \<in> (\<lambda>(p, v). ''--'' @ p) ` set cols" by auto
    with snoc.IH False show ?thesis
      by (simp add: a set_properties_snoc setProperty_def)
  qed
qed

lemma set_properties_idem:
  "set_properties cols (set_properties cols vars) = set_properties cols vars"
proof
  fix k
  show "set_properties cols (set_properties cols vars) k = set_properties cols vars k"
  proof (cases "k \<in> (\<lambda>(p, v). ''--'' @ p) ` set cols")
    case True
    then show ?thesis by (rule set_properties_written)
  next
    case False
    then show ?thesis by (simp add: set_properties_unwritten)
  qed
qed

lemma set_properties_value:
  assumes "distinct (map fst cols)" and "(p, v) \<in> set cols"
  shows "set_properties cols vars (''--'' @ p) = (if v = [] then None else Some v)"
  using assms
proof (induction cols rule: rev_induct)
  case Nil
  then show ?case by simp
next
  case (snoc a cols)
  obtain q w where a: "a = (q, w)" by (cases a)
  show ?case
  proof (cases "(p, v) = (q, w)")
    case True
    then show ?thesis by (simp add: a set_properties_snoc setProperty_def)
  next
    case False
    with snoc.prems(2) a have m: "(p, v) \<in> set cols" by auto
    from snoc.prems(1) a have d: "distinct (map fst cols)" and "q \<notin> fst ` set cols" by auto
    with m have "p \<noteq> q" by force
    with snoc.IH [OF d m] show ?thesis
      by (simp add: a set_properties_snoc setProperty_def)
  qed
qed

lemma theme_token_ok:
  "\<not> (\<exists>c \<in> set n. ascii_space c) \<Longrightarrow> \<exists>cn. classList_add (''theme-'' @ n) s = Inr cn"
  by (simp add: classList_add_def ascii_space_def char_code_def Let_def)

lemma applyTheme_registered:
  assumes "map_of (themes st) n = Some th" and "\<not> (\<exists>c \<in> set n. ascii_space c)"
  shows "\<exists>st'. applyTheme n st = (Returned (), st') \<and>
           css_vars st' = set_properties (theme_colors th) (css_vars st) \<and>
           themes st' = themes st \<and> currentTheme st' = n"
proof -
  from theme_token_ok [OF assms(2)] obtain cn where
    "classList_add (''theme-'' @ n) (strip_theme_classes (body_className st)) = Inr cn"
    by blast
  with assms(1) show ?thesis
    by (simp add: applyTheme_def Let_def saveTheme_def updateThemeSelector_def)
qed

lemma dark_no_space: "\<not> (\<exists>c \<in> set ''dark''. ascii_space c)"
  by (simp add: ascii_space_def char_code_def)

text \<open>
  Claim C4, as the code has it. In any state where \<open>dark\<close> is registered with theme
  \<open>th\<close>, \<open>applyTheme('dark')\<close> returns, and \<open>exportTheme\<close> right after it yields the object
  with \<open>name = 'dark'\<close>, \<open>colors\<close> the colour mapping of \<open>th\<close> and \<open>timestamp\<close> the current
  clock. \<open>importTheme\<close> of that object answers \<open>true\<close>, and after \<open>applyTheme('dark')\<close> once
  more the custom properties of the page are those the first \<open>applyTheme\<close> left: every
  colour role of the theme carries its value (the roles of a mapping being distinct; an
  empty value means that the property is not set).
\<close>

theorem theme_round_trip:
  assumes "map_of (themes st) ''dark'' = Some th"
  shows "\<exists>st1 st2 st3.
     applyTheme ''dark'' st = (Returned (), st1) \<and>
     exportTheme st1 now =
       Returned \<lparr> td_name = Some ''dark'', td_colors = Some (theme_colors th),
                  td_timestamp = Some now \<rparr> \<and>
     importTheme \<lparr> td_name = Some ''dark'', td_colors = Some (theme_colors th),
                   td_timestamp = Some now \<rparr> st1 = (True, st2) \<and>
     applyTheme ''dark'' st2 = (Returned (), st3) \<and>
     css_vars st1 = set_properties (theme_colors th) (css_vars st) \<and>
     css_vars st2 = css_vars st1 \<and> css_vars st3 = css_vars st1 \<and>
     themes st3 = themes st \<and> currentTheme st3 = ''dark'' \<and>
     (distinct (map fst (theme_colors th)) \<longrightarrow>
        (\<forall>(p, v) \<in> set (theme_colors th).
           css_vars st3 (''--'' @ p) = (if v = [] then None else Some v)))"
proof -
  from applyTheme_registered [OF assms dark_no_space] obtain st1 where
    a1: "applyTheme ''dark'' st = (Returned (), st1)"
    and v1: "css_vars st1 = set_properties (theme_colors th) (css_vars st)"
    and t1: "themes st1 = themes st" and c1: "currentTheme st1 = ''dark''"
    by blast
  from assms t1 have r1: "map_of (themes st1) ''dark'' = Some th" by simp
  define sta where "sta = snd (addCustomTheme ''dark'' (theme_colors th) st1)"
  have ta: "themes sta = themes st1" and va: "css_vars sta = css_vars st1"
    using r1 by (simp_all add: sta_def addCustomTheme_def)
  from r1 ta have ra: "map_of (themes sta) ''dark'' = Some th" by simp
  from applyTheme_registered [OF ra dark_no_space] obtain st2 where
    a2: "applyTheme ''dark'' sta = (Returned (), st2)"
    and v2: "css_vars st2 = set_properties (theme_colors th) (css_vars sta)"
    and t2: "themes st2 = themes sta" and c2: "currentTheme st2 = ''dark''"
    by blast
  from ra t2 have r2: "map_of (themes st2) ''dark'' = Some th" by simp
  from applyTheme_registered [OF r2 dark_no_space] obtain st3 where
    a3: "applyTheme ''dark'' st2 = (Returned (), st3)"
    and v3: "css_vars st3 = set_properties (theme_colors th) (css_vars st2)"
    and t3: "themes st3 = themes st2" and c3: "currentTheme st3 = ''dark''"
    by blast
  have ex: "exportTheme st1 now =
       Returned \<lparr> td_name = Some ''dark'', td_colors = Some (theme_colors th),
                  td_timestamp = Some now \<rparr>"
    using r1 c1 by (simp add: exportTheme_def)
  have im: "importTheme \<lparr> td_name = Some ''dark'', td_colors = Some (theme_colors th),
                   td_timestamp = Some now \<rparr> st1 = (True, st2)"
    using a2 by (simp add: importTheme_def sta_def)
  have e2: "css_vars st2 = css_vars st1"
    using v2 va v1 by (simp add: set_properties_idem)
  have e3: "css_vars st3 = css_vars st1"
    using v3 e2 v1 by (simp add: set_properties_idem)
  have roles: "\<forall>(p, v) \<in> set (theme_colors th).
      css_vars st3 (''--'' @ p) = (if v = [] then None else Some v)"
    if d: "distinct (map fst (theme_colors th))"
  proof -
    have "css_vars st3 (''--'' @ p) = (if v = [] then None else Some v)"
      if "(p, v) \<in> set (theme_colors th)" for p v
      using set_properties_value [OF d that, of "css_vars st"] e3 v1 by simp
    then show ?thesis by blast
  qed
  from a1 ex im a3 v1 e2 e3 t3 t2 ta t1 c3 roles show ?thesis by auto
qed

theorem theme_round_trip_witness:
  "map_of (themes constructed) ''dark'' = Some \<lparr> theme_name = ''Dark'', theme_colors = dark_colors \<rparr> \<and>
   (\<exists>st1 st2 st3.
     applyTheme ''dark'' constructed = (Returned (), st1) \<and>
     exportTheme st1 1700000000000 =
       Returned \<lparr> td_name = Some ''dark'', td_colors = Some dark_colors,
                  td_timestamp = Some 1700000000000 \<rparr> \<and>
     importTheme \<lparr> td_name = Some ''dark'', td_colors = Some dark_colors,
                   td_timestamp = Some 1700000000000 \<rparr> st1 = (True, st2) \<and>
     applyTheme ''dark'' st2 = (Returned (), st3) \<and>
     css_vars st3 = css_vars st1 \<and>
     css_vars st3 ''--text-primary'' = Some ''#f4e6d3'')"
proof -
  have r: "map_of (themes constructed) ''dark'' =
      Some \<lparr> theme_name = ''Dark'', theme_colors = dark_colors \<rparr>"
    by (simp add: constructed_def builtin_themes_def)
  have d: "distinct (map fst dark_colors)"
    by (simp add: dark_colors_def)
  have m: "(''text-primary'', ''#f4e6d3'') \<in> set dark_colors"
    by (simp add: dark_colors_def)
  from theme_round_trip [OF r, of 1700000000000] obtain st1 st2 st3 where
    h: "applyTheme ''dark'' constructed = (Returned (), st1)"
       "exportTheme st1 1700000000000 =
         Returned \<lparr> td_name = Some ''dark'', td_colors = Some dark_colors,
                  td_timestamp = Some 1700000000000 \<rparr>"
       "importTheme \<lparr> td_name = Some ''dark'', td_colors = Some dark_colors,
                   td_timestamp = Some 1700000000000 \<rparr> st1 = (True, st2)"
       "applyTheme ''dark'' st2 = (Returned (), st3)"
       "css_vars st3 = css_vars st1"
       "distinct (map fst dark_colors) \<longrightarrow>
          (\<forall>(p, v) \<in> set dark_colors.
             css_vars st3 (''--'' @ p) = (if v = [] then None else Some v))"
    by auto
  from h(6) d m have "css_vars st3 (''--'' @ ''text-primary'') =
      (if ''#f4e6d3'' = [] then None else Some ''#f4e6d3'')"
    by blast
  then have "css_vars st3 ''--text-primary'' = Some ''#f4e6d3''" by simp
  with r h show ?thesis by blast
qed

text \<open>
  Claim C4 as stated fails: the exported object is not exactly the pair of \<open>name\<close> and
  \<open>colors\<close>, it also has the property \<open>timestamp\<close>.
\<close>

theorem theme_export_counterexample:
  "map_of (themes constructed) ''dark'' = Some \<lparr> theme_name = ''Dark'', theme_colors = dark_colors \<rparr> \<and>
   exportTheme (snd (applyTheme ''dark'' constructed)) 1700000000000 \<noteq>
     Returned \<lparr> td_name = Some ''dark'', td_colors = Some dark_colors, td_timestamp = None \<rparr>"
  by (simp add: constructed_def builtin_themes_def applyTheme_def exportTheme_def Let_def
      classList_add_def ascii_space_def char_code_def saveTheme_def updateThemeSelector_def)

text \<open>
  Claim C8. For each of the four built-in names \<open>cafe\<close>, \<open>dark\<close>, \<open>ocean\<close> and \<open>forest\<close>,
  \<open>removeCustomTheme\<close> returns \<open>false\<close> and changes nothing but the console, to which it
  adds a warning: the registry and the active theme are as before.
\<close>

theorem builtin_protection:
  assumes "n \<in> {''cafe'', ''dark'', ''ocean'', ''forest''}"
  shows "removeCustomTheme n st =
           (Returned False, st\<lparr> theme_console := theme_console st @ [BuiltinTheme n] \<rparr>) \<and>
         themes (snd (removeCustomTheme n st)) = themes st \<and>
         currentTheme (snd (removeCustomTheme n st)) = currentTheme st"
  using assms by (auto simp: removeCustomTheme_def builtin_names_def)

theorem builtin_protection_witness:
  "''cafe'' \<in> {''cafe'', ''dark'', ''ocean'', ''forest''} \<and>
   removeCustomTheme ''cafe'' constructed =
     (Returned False, constructed\<lparr> theme_console := [BuiltinTheme ''cafe''] \<rparr>) \<and>
   themes (snd (removeCustomTheme ''cafe'' constructed)) = builtin_themes \<and>
   currentTheme (snd (removeCustomTheme ''cafe'' constructed)) = ''cafe''"
proof -
  have a: "''cafe'' \<in> {''cafe'', ''dark'', ''ocean'', ''forest''}" by simp
  from builtin_protection [OF a, of constructed] a show ?thesis
    by (simp add: constructed_def)
qed

section \<open>Properties of ProjectsManager\<close>

lemma load_failed_no_success: "load_failed net \<Longrightarrow> \<not> load_succeeds net"
  by (cases net) (auto simp: load_failed_def load_succeeds_def)

lemma load_try_thrown:
  "\<not> load_succeeds net \<Longrightarrow>
   \<exists>e st1. load_try net st = (Some e, st1) \<and> projects_console st1 = projects_console st"
  by (cases net)
    (auto simp: load_succeeds_def load_try_def Let_def
      split: option.splits data_file.splits projects_json.splits)

lemma load_try_completed:
  "load_succeeds net \<Longrightarrow> \<exists>st1. load_try net st = (None, st1) \<and> isLoaded st1"
  by (cases net)
    (auto simp: load_succeeds_def load_try_def Let_def
      split: option.splits data_file.splits projects_json.splits)

text \<open>
  Claim C9. \<open>loadProjects\<close> returns on every answer of the network and never raises;
  the value returned is the catalog, and the catalog is marked loaded on either path.
  When the load fails (transport error, a status outside 200 to 299, or a body that does
  not parse), and more generally whenever the \<open>try\<close> block throws, the catalog and the
  view are exactly the one hard-coded project, and the error is logged.
\<close>

theorem load_never_raises:
  "\<exists>ps. loadProjects net st = (Returned ps, snd (loadProjects net st)) \<and>
        ps = projects (snd (loadProjects net st)) \<and>
        isLoaded (snd (loadProjects net st)) \<and>
        (load_failed net \<longrightarrow> \<not> load_succeeds net) \<and>
        (\<not> load_succeeds net \<longrightarrow>
           ps = [fallback_project] \<and>
           filteredProjects (snd (loadProjects net st)) = [fallback_project] \<and>
           (\<exists>e. projects_console (snd (loadProjects net st)) = projects_console st @ [LoadFailed e]))"
proof (cases "load_succeeds net")
  case True
  then obtain st1 where "load_try net st = (None, st1)" and "isLoaded st1"
    using load_try_completed by blast
  moreover from True have "\<not> load_failed net"
    using load_failed_no_success by blast
  ultimately show ?thesis using True
    by (simp add: loadProjects_def)
next
  case False
  then obtain e st1 where "load_try net st = (Some e, st1)"
    and "projects_console st1 = projects_console st"
    using load_try_thrown by blast
  with False show ?thesis
    by (simp add: loadProjects_def loadFallbackData_def Let_def)
qed

theorem load_never_raises_witness:
  "load_failed Rejected \<and> load_failed (Response 404 None) \<and> load_failed (Response 200 None) \<and>
   fst (loadProjects (Response 200 None) (new_ProjectsManager None date_only_value)) =
     Returned [fallback_project] \<and>
   isLoaded (snd (loadProjects (Response 200 None) (new_ProjectsManager None date_only_value)))"
proof -
  have f: "load_failed Rejected" "load_failed (Response 404 None)" "load_failed (Response 200 None)"
    by (simp_all add: load_failed_def ok_def)
  from load_never_raises [of "Response 200 None" "new_ProjectsManager None date_only_value"] f(3)
    load_failed_no_success [OF f(3)]
  have "fst (loadProjects (Response 200 None) (new_ProjectsManager None date_only_value)) =
     Returned [fallback_project] \<and>
   isLoaded (snd (loadProjects (Response 200 None) (new_ProjectsManager None date_only_value)))"
    by (metis fst_conv)
  with f show ?thesis by simp
qed

lemma displayProjects_catalog:
  "projects (displayProjects ps st) = projects st \<and>
   filteredProjects (displayProjects ps st) = filteredProjects st \<and>
   settings (displayProjects ps st) = settings st"
  by (simp add: displayProjects_def Let_def split: option.splits)

lemma displayFiltered_catalog:
  "projects (displayFiltered st) = projects st \<and>
   filteredProjects (displayFiltered st) = filteredProjects st"
  by (simp add: displayFiltered_def displayProjects_catalog)

lemma displayProjects_rendered:
  assumes "grid st = Some g"
  shows "\<exists>rendered.
           grid (displayProjects ps st) = Some (if rendered = [] then NoProjects else Cards rendered) \<and>
           displayed (displayProjects ps st) = displayed st @ [rendered] \<and>
           mset rendered = mset ps \<and>
           (\<not> showFeaturedFirst (settings st) \<longrightarrow> rendered = ps) \<and>
           (showFeaturedFirst (settings st) \<longrightarrow>
              rendered = array_sort (compare_projects (date_value st)) ps)"
proof (cases "showFeaturedFirst (settings st)")
  case True
  have "mset (foldr (insert_sorted (compare_projects (date_value st))) ps []) = mset ps"
  proof (induction ps)
    case Nil
    show ?case by simp
  next
    case (Cons p ps)
    have "mset (insert_sorted cmp x ys) = add_mset x (mset ys)" for cmp :: "project \<Rightarrow> project \<Rightarrow> int option" and x ys
      by (induction ys) auto
    with Cons show ?case by simp
  qed
  with True assms show ?thesis
    by (simp add: displayProjects_def Let_def array_sort_def)
next
  case False
  with assms show ?thesis
    by (simp add: displayProjects_def Let_def)
qed

lemma displayProjects_no_grid:
  assumes "grid st = None"
  shows "grid (displayProjects ps st) = None \<and> displayed (displayProjects ps st) = displayed st"
  using assms by (simp add: displayProjects_def)

lemma falsy_argument_resets:
  assumes "falsy q"
  shows "searchProjects q st = displayProjects (projects st) (st\<lparr> filteredProjects := projects st \<rparr>)"
    and "filterByTechnology q st = displayProjects (projects st) (st\<lparr> filteredProjects := projects st \<rparr>)"
    and "filterByLanguage q st = displayProjects (projects st) (st\<lparr> filteredProjects := projects st \<rparr>)"
  using assms
  by (auto simp: falsy_def searchProjects_def filterByTechnology_def filterByLanguage_def
      displayFiltered_def split: option.splits)

text \<open>
  Claim C7, as the code has it. With an absent or empty argument, each of
  \<open>searchProjects\<close>, \<open>filterByTechnology\<close> and \<open>filterByLanguage\<close> sets \<open>filteredProjects\<close>
  to the full catalog in its original order, leaves the catalog as it is, and renders:
  on a page with a grid the cards shown, and the list of the \<open>projectsDisplayed\<close> event,
  are a rearrangement of the full catalog, in the original order when
  \<open>showFeaturedFirst\<close> is off and in the order of the featured-first sort when it is on.
  On a page without a grid nothing is shown.
\<close>

theorem empty_filter_resets:
  assumes "falsy q"
    and "operation \<in> {searchProjects, filterByTechnology, filterByLanguage}"
  shows "filteredProjects (operation q st) = projects st \<and>
         projects (operation q st) = projects st \<and>
         (grid st \<noteq> None \<longrightarrow>
            (\<exists>rendered.
               grid (operation q st) = Some (if rendered = [] then NoProjects else Cards rendered) \<and>
               displayed (operation q st) = displayed st @ [rendered] \<and>
               mset rendered = mset (projects st) \<and>
               (\<not> showFeaturedFirst (settings st) \<longrightarrow> rendered = projects st) \<and>
               (showFeaturedFirst (settings st) \<longrightarrow>
                  rendered = array_sort (compare_projects (date_value st)) (projects st)))) \<and>
         (grid st = None \<longrightarrow>
            grid (operation q st) = None \<and> displayed (operation q st) = displayed st)"
proof -
  let ?st = "st\<lparr> filteredProjects := projects st \<rparr>"
  from assms have eq: "operation q st = displayProjects (projects st) ?st"
    using falsy_argument_resets [OF assms(1), of st] by auto
  have a: "filteredProjects (operation q st) = projects st \<and> projects (operation q st) = projects st"
    by (simp add: eq displayProjects_catalog)
  have b: "\<exists>rendered.
               grid (operation q st) = Some (if rendered = [] then NoProjects else Cards rendered) \<and>
               displayed (operation q st) = displayed st @ [rendered] \<and>
               mset rendered = mset (projects st) \<and>
               (\<not> showFeaturedFirst (settings st) \<longrightarrow> rendered = projects st) \<and>
               (showFeaturedFirst (settings st) \<longrightarrow>
                  rendered = array_sort (compare_projects (date_value st)) (projects st))"
    if "grid st \<noteq> None"
  proof -
    from that obtain g where "grid ?st = Some g" by auto
    from displayProjects_rendered [OF this, of "projects st"] show ?thesis
      by (simp add: eq)
  qed
  have c: "grid (operation q st) = None \<and> displayed (operation q st) = displayed st"
    if "grid st = None"
  proof -
    from that have "grid ?st = None" by simp
    from displayProjects_no_grid [OF this, of "projects st"] show ?thesis
      by (simp add: eq)
  qed
  from a b c show ?thesis by blast
qed

theorem empty_filter_resets_witness:
  "falsy (Some []) \<and> falsy None \<and>
   projects narrowed_state = [project_A, project_B, project_C] \<and>
   filteredProjects narrowed_state = [] \<and>
   grid narrowed_state = Some NoProjects \<and>
   \<not> showFeaturedFirst (settings narrowed_state) \<and>
   filteredProjects (searchProjects (Some []) narrowed_state) = [project_A, project_B, project_C] \<and>
   grid (searchProjects (Some []) narrowed_state) = Some (Cards [project_A, project_B, project_C]) \<and>
   grid (searchProjects None narrowed_state) = Some (Cards [project_A, project_B, project_C]) \<and>
   grid (filterByTechnology None narrowed_state) = Some (Cards [project_A, project_B, project_C]) \<and>
   grid (filterByLanguage (Some []) narrowed_state) = Some (Cards [project_A, project_B, project_C]) \<and>
   displayed (searchProjects (Some []) narrowed_state) =
     displayed narrowed_state @ [[project_A, project_B, project_C]]"
proof -
  have f: "falsy (Some [])" "falsy None" by (simp_all add: falsy_def)
  have l: "toLowerCase ''JavaScript'' \<noteq> toLowerCase ''Ruby''" by code_simp
  have n: "projects narrowed_state = [project_A, project_B, project_C]"
    "filteredProjects narrowed_state = []"
    "grid narrowed_state = Some NoProjects"
    "\<not> showFeaturedFirst (settings narrowed_state)"
    unfolding narrowed_state_def
    by (simp_all add: l filterByLanguage_def displayFiltered_def displayProjects_def Let_def
        plain_state_def featured_first_state_def new_ProjectsManager_def
        project_A_def project_B_def project_C_def example_project_def fallback_project_def)
  have g: "grid narrowed_state \<noteq> None" using n(3) by simp
  have m: "operation \<in> {searchProjects, filterByTechnology, filterByLanguage} \<Longrightarrow> falsy q \<Longrightarrow>
      filteredProjects (operation q narrowed_state) = [project_A, project_B, project_C] \<and>
      grid (operation q narrowed_state) = Some (Cards [project_A, project_B, project_C]) \<and>
      displayed (operation q narrowed_state) =
        displayed narrowed_state @ [[project_A, project_B, project_C]]" for operation q
    using empty_filter_resets [of q operation narrowed_state] n g by auto
  from m [of searchProjects "Some []"] m [of searchProjects None] m [of filterByTechnology None]
    m [of filterByLanguage "Some []"] f n
  show ?thesis by simp
qed

text \<open>
  Claim C7 as stated fails where \<open>showFeaturedFirst\<close> is on: for the catalog A, B, C an
  empty and an absent search argument both show the cards in the order B, C, A, which
  is not the original order of the catalog.
\<close>

theorem empty_filter_order_counterexample:
  "projects featured_first_state = [project_A, project_B, project_C] \<and>
   grid (searchProjects (Some []) featured_first_state) =
     Some (Cards [project_B, project_C, project_A]) \<and>
   grid (searchProjects None featured_first_state) =
     Some (Cards [project_B, project_C, project_A]) \<and>
   [project_B, project_C, project_A] \<noteq> [project_A, project_B, project_C]"
proof -
  have s: "array_sort (compare_projects date_only_value) [project_A, project_B, project_C] =
     [project_B, project_C, project_A]"
    by (simp add: array_sort_def not_after_def compare_projects_def
        date_only_value_def decimal_def read_nat_def is_digit_def char_code_def
        days_in_month_def days_from_civil_def leap_year_def Let_def
        project_A_def project_B_def project_C_def example_project_def)
  have d: "project_id project_B \<noteq> project_id project_A"
    by (simp add: project_A_def project_B_def example_project_def)
  then have "project_B \<noteq> project_A" by auto
  then show ?thesis
    by (simp add: s searchProjects_def displayFiltered_def displayProjects_def Let_def
        featured_first_state_def new_ProjectsManager_def)
qed

lemma saveToLocalStorage_catalog:
  "projects (saveToLocalStorage now st) = projects st \<and>
   filteredProjects (saveToLocalStorage now st) = filteredProjects st"
  by (simp add: saveToLocalStorage_def)

lemma generateId_loop_fresh: "generateId_loop ids b cand counter \<notin> set ids"
proof (induction ids b cand counter rule: generateId_loop.induct)
  case (1 ids b cand counter)
  show ?case
  proof (cases "cand \<in> set ids")
    case True
    with "1.IH" show ?thesis by (simp add: generateId_loop.simps [of ids b cand])
  next
    case False
    then show ?thesis by (simp add: generateId_loop.simps [of ids b cand])
  qed
qed

lemma generateId_fresh: "generateId n st \<notin> project_id ` set (projects st)"
  using generateId_loop_fresh [of "map project_id (projects st)" "baseId n" "baseId n" 1]
  by (simp add: generateId_def)

lemma addProject_rejected:
  "falsy (in_name pd) \<or> falsy (in_github pd) \<Longrightarrow> addProject pd stamp now st = (Raised ValidationError, st)"
  by (auto simp: addProject_def)

lemma addProject_accepted:
  assumes "\<not> falsy (in_name pd)" and "\<not> falsy (in_github pd)"
  shows "\<exists>p. fst (addProject pd stamp now st) = Returned p \<and>
             projects (snd (addProject pd stamp now st)) = p # projects st \<and>
             filteredProjects (snd (addProject pd stamp now st)) = p # projects st \<and>
             project_id p = (if falsy (in_id pd) then generateId (str_or (in_name pd) []) st
                             else str_or (in_id pd) [])"
  using assms
  by (simp add: addProject_def Let_def saveToLocalStorage_catalog displayFiltered_catalog)

lemma addProject_distinct:
  assumes "distinct (map project_id (projects st))" and "falsy (in_id pd)"
  shows "distinct (map project_id (projects (snd (addProject pd stamp now st))))"
proof (cases "falsy (in_name pd) \<or> falsy (in_github pd)")
  case True
  then show ?thesis using assms(1) by (simp add: addProject_rejected)
next
  case False
  then obtain p where p: "projects (snd (addProject pd stamp now st)) = p # projects st"
    and i: "project_id p = generateId (str_or (in_name pd) []) st"
    using addProject_accepted [of pd stamp now st] assms(2) by auto
  from i have "project_id p \<notin> project_id ` set (projects st)"
    using generateId_fresh by simp
  with p assms(1) show ?thesis by simp
qed

lemma my_project_base: "baseId ''My Project!'' = ''my-project''"
  by code_simp

lemma generateId_loop_free:
  "cand \<notin> set ids \<Longrightarrow> generateId_loop ids b cand counter = cand"
  by (simp add: generateId_loop.simps [of ids b cand])

lemma generateId_loop_taken:
  "cand \<in> set ids \<Longrightarrow>
   generateId_loop ids b cand counter = generateId_loop ids b (suffixed b counter) (counter + 1)"
  by (simp add: generateId_loop.simps [of ids b cand])

lemma generateId_free:
  "baseId n \<notin> project_id ` set (projects st) \<Longrightarrow> generateId n st = baseId n"
  by (simp add: generateId_def generateId_loop_free)

lemma generateId_first_suffix:
  assumes "baseId n \<in> project_id ` set (projects st)"
    and "baseId n @ ''-1'' \<notin> project_id ` set (projects st)"
  shows "generateId n st = baseId n @ ''-1''"
proof -
  have "show_nat 1 = ''1''" by code_simp
  then have s: "suffixed (baseId n) 1 = baseId n @ ''-1''"
    by (simp add: suffixed_def)
  from assms(1) have "baseId n \<in> set (map project_id (projects st))" by simp
  then have "generateId n st =
      generateId_loop (map project_id (projects st)) (baseId n) (suffixed (baseId n) 1) (1 + 1)"
    unfolding generateId_def by (rule generateId_loop_taken)
  also have "\<dots> = suffixed (baseId n) 1"
  proof (rule generateId_loop_free)
    from assms(2) show "suffixed (baseId n) 1 \<notin> set (map project_id (projects st))"
      unfolding s set_map .
  qed
  finally show ?thesis by (simp only: s)
qed

text \<open>
  An argument object that is handed to \<open>addProject\<close> a second time carries the
  identifier the first call wrote into it, so the second call stores that identifier
  again (unless it is the empty string, which counts as absent).
\<close>

lemma reused_argument_duplicate:
  assumes "\<not> falsy (in_name pd)" and "\<not> falsy (in_github pd)" and "falsy (in_id pd)"
    and "generateId (str_or (in_name pd) []) st \<noteq> []"
  shows "\<not> distinct (map project_id (projects (snd
           (addProject (addProject_argument pd st) stamp2 t2 (snd (addProject pd stamp1 t1 st))))))"
proof -
  let ?i = "generateId (str_or (in_name pd) []) st"
  let ?pd = "addProject_argument pd st"
  from addProject_accepted [OF assms(1,2), of stamp1 t1 st] assms(3) obtain p where
    p: "projects (snd (addProject pd stamp1 t1 st)) = p # projects st" "project_id p = ?i"
    by auto
  have a: "\<not> falsy (in_name ?pd)" "\<not> falsy (in_github ?pd)" "\<not> falsy (in_id ?pd)"
    "str_or (in_id ?pd) [] = ?i"
    using assms by (simp_all add: addProject_argument_def falsy_def str_or_def)
  from addProject_accepted [OF a(1,2), of stamp2 t2 "snd (addProject pd stamp1 t1 st)"] a(3,4)
  obtain q where
    "projects (snd (addProject ?pd stamp2 t2 (snd (addProject pd stamp1 t1 st)))) =
       q # projects (snd (addProject pd stamp1 t1 st))"
    "project_id q = ?i"
    by auto
  with p show ?thesis by simp
qed

text \<open>
  Claim C3, as the code has it. Starting from a catalog with pairwise distinct
  identifiers, any sequence of \<open>addProject\<close> calls whose arguments carry no identifier
  leaves the identifiers pairwise distinct. Two calls in a row for the name
  \<open>My Project!\<close>, on a catalog where \<open>my-project\<close> and \<open>my-project-1\<close> are free, put
  \<open>my-project\<close> and then \<open>my-project-1\<close> at the front of the catalog.
\<close>

theorem generated_ids_unique:
  "(distinct (map project_id (projects st)) \<and> (\<forall>c \<in> set calls. falsy (in_id (fst c))) \<longrightarrow>
      distinct (map project_id (projects (addProjects calls st)))) \<and>
   (g1 \<noteq> [] \<and> g2 \<noteq> [] \<and> ''my-project'' \<notin> project_id ` set (projects st) \<and>
    ''my-project-1'' \<notin> project_id ` set (projects st) \<longrightarrow>
      map project_id (projects (addProjects
        [(named_input ''My Project!'' g1, stamp1, t1), (named_input ''My Project!'' g2, stamp2, t2)] st)) =
      ''my-project-1'' # ''my-project'' # map project_id (projects st))"
proof -
  have seq: "distinct (map project_id (projects (addProjects calls st)))"
    if "distinct (map project_id (projects st))"
      and "\<forall>c \<in> set calls. falsy (in_id (fst c))"
    using that
  proof (induction calls arbitrary: st)
    case Nil
    then show ?case by simp
  next
    case (Cons c calls)
    obtain pd stamp now where c: "c = (pd, stamp, now)" by (cases c)
    from Cons.prems(2) c have f: "falsy (in_id pd)" by simp
    have "distinct (map project_id (projects (snd (addProject pd stamp now st))))"
      using Cons.prems(1) f by (rule addProject_distinct)
    moreover from Cons.prems(2) have "\<forall>c \<in> set calls. falsy (in_id (fst c))" by simp
    ultimately show ?case using Cons.IH c by simp
  qed
  have two: "map project_id (projects (addProjects
        [(named_input ''My Project!'' g1, stamp1, t1), (named_input ''My Project!'' g2, stamp2, t2)] st)) =
      ''my-project-1'' # ''my-project'' # map project_id (projects st)"
    if g: "g1 \<noteq> []" "g2 \<noteq> []" and free: "''my-project'' \<notin> project_id ` set (projects st)"
      "''my-project-1'' \<notin> project_id ` set (projects st)"
  proof -
    let ?i1 = "named_input ''My Project!'' g1" and ?i2 = "named_input ''My Project!'' g2"
    have n1: "\<not> falsy (in_name ?i1)" "\<not> falsy (in_github ?i1)" "falsy (in_id ?i1)"
      "str_or (in_name ?i1) [] = ''My Project!''"
      using g by (simp_all add: named_input_def no_input_def falsy_def str_or_def)
    have n2: "\<not> falsy (in_name ?i2)" "\<not> falsy (in_github ?i2)" "falsy (in_id ?i2)"
      "str_or (in_name ?i2) [] = ''My Project!''"
      using g by (simp_all add: named_input_def no_input_def falsy_def str_or_def)
    define st1 where "st1 = snd (addProject ?i1 stamp1 t1 st)"
    from addProject_accepted [OF n1(1,2), of stamp1 t1 st] n1(3,4) obtain p1 where
      p1: "projects st1 = p1 # projects st" "project_id p1 = generateId ''My Project!'' st"
      by (auto simp: st1_def)
    have i1: "project_id p1 = ''my-project''"
      using p1(2) generateId_free [of "''My Project!''" st] free(1)
      by (simp add: my_project_base)
    from addProject_accepted [OF n2(1,2), of stamp2 t2 st1] n2(3,4) obtain p2 where
      p2: "projects (snd (addProject ?i2 stamp2 t2 st1)) = p2 # projects st1"
        "project_id p2 = generateId ''My Project!'' st1"
      by auto
    have i2: "project_id p2 = ''my-project-1''"
      using p2(2) generateId_first_suffix [of "''My Project!''" st1] free(2) p1(1) i1
      by (simp add: my_project_base)
    show ?thesis using p1(1) p2(1) i1 i2 by (simp add: st1_def)
  qed
  from seq two show ?thesis by blast
qed

theorem generated_ids_unique_witness:
  "distinct (map project_id (projects fallback_state)) \<and>
   map project_id (projects (addProjects
        [(named_input ''My Project!'' ''https://github.com/minngk/a'', ''2025-02-01T00:00:00.000Z'', 1),
         (named_input ''My Project!'' ''https://github.com/minngk/b'', ''2025-02-02T00:00:00.000Z'', 2)]
        fallback_state)) = [''my-project-1'', ''my-project'', ''gominage''] \<and>
   distinct (map project_id (projects (addProjects
        [(named_input ''My Project!'' ''https://github.com/minngk/a'', ''2025-02-01T00:00:00.000Z'', 1),
         (named_input ''My Project!'' ''https://github.com/minngk/b'', ''2025-02-02T00:00:00.000Z'', 2)]
        fallback_state)))"
proof -
  let ?calls = "[(named_input ''My Project!'' ''https://github.com/minngk/a'', ''2025-02-01T00:00:00.000Z'', 1::int),
         (named_input ''My Project!'' ''https://github.com/minngk/b'', ''2025-02-02T00:00:00.000Z'', 2)]"
  have p: "map project_id (projects fallback_state) = [''gominage'']"
    by (simp add: fallback_state_def loadFallbackData_def fallback_project_def)
  have d: "distinct (map project_id (projects fallback_state))"
    by (simp add: p)
  have f: "\<forall>c \<in> set ?calls. falsy (in_id (fst c))"
    by (simp add: named_input_def no_input_def falsy_def)
  have fr: "''my-project'' \<notin> project_id ` set (projects fallback_state)"
    "''my-project-1'' \<notin> project_id ` set (projects fallback_state)"
    using p by (simp_all flip: set_map)
  have a: "distinct (map project_id (projects (addProjects ?calls fallback_state)))"
    using generated_ids_unique [of fallback_state ?calls] d f by blast
  have b: "map project_id (projects (addProjects ?calls fallback_state)) =
      [''my-project-1'', ''my-project'', ''gominage'']"
    using generated_ids_unique [where ?g1.0 = "''https://github.com/minngk/a''"
        and ?g2.0 = "''https://github.com/minngk/b''" and st = fallback_state
        and ?stamp1.0 = "''2025-02-01T00:00:00.000Z''" and ?t1.0 = 1
        and ?stamp2.0 = "''2025-02-02T00:00:00.000Z''" and ?t2.0 = 2] fr p
    by simp
  from d a b show ?thesis by simp
qed

text \<open>
  Claim C3 as stated fails: an identifier given in the argument is taken as it is. On
  the catalog that holds \<open>gominage\<close>, a call with \<open>id = 'gominage'\<close> is accepted and the
  catalog then holds that identifier twice.
\<close>

theorem explicit_id_counterexample:
  "distinct (map project_id (projects fallback_state)) \<and>
   fst (addProject ((named_input ''Copy'' ''https://github.com/minngk/copy'')\<lparr> in_id := Some ''gominage'' \<rparr>)
          ''2025-02-01T00:00:00.000Z'' 1 fallback_state) \<noteq> Raised ValidationError \<and>
   map project_id (projects (snd (addProject
        ((named_input ''Copy'' ''https://github.com/minngk/copy'')\<lparr> in_id := Some ''gominage'' \<rparr>)
        ''2025-02-01T00:00:00.000Z'' 1 fallback_state))) = [''gominage'', ''gominage''] \<and>
   \<not> distinct (map project_id (projects (snd (addProject
        ((named_input ''Copy'' ''https://github.com/minngk/copy'')\<lparr> in_id := Some ''gominage'' \<rparr>)
        ''2025-02-01T00:00:00.000Z'' 1 fallback_state))))"
proof -
  let ?pd = "(named_input ''Copy'' ''https://github.com/minngk/copy'')\<lparr> in_id := Some ''gominage'' \<rparr>"
  have n: "\<not> falsy (in_name ?pd)" "\<not> falsy (in_github ?pd)" "\<not> falsy (in_id ?pd)"
    "str_or (in_id ?pd) [] = ''gominage''"
    by (simp_all add: named_input_def no_input_def falsy_def str_or_def)
  have p: "map project_id (projects fallback_state) = [''gominage'']"
    by (simp add: fallback_state_def loadFallbackData_def fallback_project_def)
  from addProject_accepted [OF n(1,2), of "''2025-02-01T00:00:00.000Z''" 1 fallback_state] n(3,4)
  obtain q where
    "fst (addProject ?pd ''2025-02-01T00:00:00.000Z'' 1 fallback_state) = Returned q"
    "projects (snd (addProject ?pd ''2025-02-01T00:00:00.000Z'' 1 fallback_state)) = q # projects fallback_state"
    "project_id q = ''gominage''"
    by auto
  with p show ?thesis by simp
qed

text \<open>
  Claim C6. \<open>addProject({})\<close> raises the validation error and leaves the state as it is,
  as does every argument whose \<open>name\<close> or \<open>github\<close> is absent or empty. With both present,
  the call returns the new project, which is then at index 0 of the catalog in front of
  the old entries; each property the argument leaves out has its default.
\<close>

theorem addProject_validation:
  "addProject no_input stamp now st = (Raised ValidationError, st) \<and>
   (falsy (in_name pd) \<or> falsy (in_github pd) \<longrightarrow>
      addProject pd stamp now st = (Raised ValidationError, st)) \<and>
   (\<not> falsy (in_name pd) \<and> \<not> falsy (in_github pd) \<longrightarrow>
      (\<exists>p. fst (addProject pd stamp now st) = Returned p \<and>
           projects (snd (addProject pd stamp now st)) = p # projects st \<and>
           projects (snd (addProject pd stamp now st)) ! 0 = p \<and>
           filteredProjects (snd (addProject pd stamp now st)) = p # projects st \<and>
           in_name pd = Some (project_name p) \<and>
           in_github pd = Some (github p) \<and>
           (in_id pd = None \<longrightarrow> project_id p = generateId (project_name p) st) \<and>
           (in_description pd = None \<longrightarrow> description p = []) \<and>
           (in_icon pd = None \<longrightarrow> icon p = getLanguageIcon (in_language pd)) \<and>
           (in_technologies pd = None \<longrightarrow> technologies p = []) \<and>
           (in_demo pd = None \<longrightarrow> demo p = None) \<and>
           (in_featured pd = None \<longrightarrow> \<not> featured p) \<and>
           createdAt p = stamp \<and>
           status p = ''active'' \<and>
           (in_color pd = None \<longrightarrow> color p = ''#333'') \<and>
           (in_language pd = None \<longrightarrow>
              language p = ''Other'' \<and> (in_icon pd = None \<longrightarrow> icon p = ''fas fa-code''))))"
proof -
  have a: "addProject no_input stamp now st = (Raised ValidationError, st)"
    by (rule addProject_rejected) (simp add: no_input_def falsy_def)
  have b: "addProject pd stamp now st = (Raised ValidationError, st)"
    if "falsy (in_name pd) \<or> falsy (in_github pd)"
    using that by (rule addProject_rejected)
  have c: "\<exists>p. fst (addProject pd stamp now st) = Returned p \<and>
           projects (snd (addProject pd stamp now st)) = p # projects st \<and>
           projects (snd (addProject pd stamp now st)) ! 0 = p \<and>
           filteredProjects (snd (addProject pd stamp now st)) = p # projects st \<and>
           in_name pd = Some (project_name p) \<and>
           in_github pd = Some (github p) \<and>
           (in_id pd = None \<longrightarrow> project_id p = generateId (project_name p) st) \<and>
           (in_description pd = None \<longrightarrow> description p = []) \<and>
           (in_icon pd = None \<longrightarrow> icon p = getLanguageIcon (in_language pd)) \<and>
           (in_technologies pd = None \<longrightarrow> technologies p = []) \<and>
           (in_demo pd = None \<longrightarrow> demo p = None) \<and>
           (in_featured pd = None \<longrightarrow> \<not> featured p) \<and>
           createdAt p = stamp \<and>
           status p = ''active'' \<and>
           (in_color pd = None \<longrightarrow> color p = ''#333'') \<and>
           (in_language pd = None \<longrightarrow>
              language p = ''Other'' \<and> (in_icon pd = None \<longrightarrow> icon p = ''fas fa-code''))"
    if n: "\<not> falsy (in_name pd)" and g: "\<not> falsy (in_github pd)"
  proof -
    from n obtain nm where nm: "in_name pd = Some nm" "nm \<noteq> []"
      by (auto simp: falsy_def split: option.splits)
    from g obtain gh where gh: "in_github pd = Some gh" "gh \<noteq> []"
      by (auto simp: falsy_def split: option.splits)
    show ?thesis
      using n g nm gh
      by (simp add: addProject_def Let_def saveToLocalStorage_catalog displayFiltered_catalog
          str_or_def falsy_def getLanguageIcon_def)
  qed
  from a b c show ?thesis by blast
qed

theorem addProject_validation_witness:
  "\<not> falsy (in_name (named_input ''x'' ''https://github.com/minngk/x'')) \<and>
   \<not> falsy (in_github (named_input ''x'' ''https://github.com/minngk/x'')) \<and>
   falsy (in_name no_input) \<and>
   addProject no_input ''2025-02-01T00:00:00.000Z'' 1 fallback_state =
     (Raised ValidationError, fallback_state) \<and>
   (\<exists>p. fst (addProject (named_input ''x'' ''https://github.com/minngk/x'')
               ''2025-02-01T00:00:00.000Z'' 1 fallback_state) = Returned p \<and>
        projects (snd (addProject (named_input ''x'' ''https://github.com/minngk/x'')
               ''2025-02-01T00:00:00.000Z'' 1 fallback_state)) = [p, fallback_project] \<and>
        project_name p = ''x'' \<and> description p = [] \<and> technologies p = [] \<and>
        demo p = None \<and> \<not> featured p \<and> status p = ''active'' \<and> color p = ''#333'' \<and>
        language p = ''Other'' \<and> icon p = ''fas fa-code'')"
proof -
  let ?pd = "named_input ''x'' ''https://github.com/minngk/x''"
  have n: "\<not> falsy (in_name ?pd)" "\<not> falsy (in_github ?pd)" "falsy (in_name no_input)"
    by (simp_all add: named_input_def no_input_def falsy_def)
  have i: "in_name ?pd = Some ''x''" "in_description ?pd = None" "in_technologies ?pd = None"
    "in_demo ?pd = None" "in_featured ?pd = None" "in_color ?pd = None" "in_language ?pd = None"
    "in_icon ?pd = None"
    by (simp_all add: named_input_def no_input_def)
  have p: "projects fallback_state = [fallback_project]"
    by (simp add: fallback_state_def loadFallbackData_def)
  from addProject_validation [of "''2025-02-01T00:00:00.000Z''" 1 fallback_state ?pd] n i p
  show ?thesis by auto
qed

lemma not_after_compare:
  assumes "dv (createdAt a) \<noteq> None" and "dv (createdAt b) \<noteq> None"
  shows "not_after (compare_projects dv) a b \<longleftrightarrow> featured_then_newest dv a b"
  using assms by (auto simp: not_after_def compare_projects_def featured_then_newest_def)

lemma featured_then_newest_total:
  assumes "dv (createdAt a) \<noteq> None" and "dv (createdAt b) \<noteq> None"
  shows "featured_then_newest dv a b \<or> featured_then_newest dv b a"
  using assms by (auto simp: featured_then_newest_def)

lemma featured_then_newest_trans:
  assumes "featured_then_newest dv a b" and "featured_then_newest dv b c"
    and "dv (createdAt a) \<noteq> None" and "dv (createdAt b) \<noteq> None" and "dv (createdAt c) \<noteq> None"
  shows "featured_then_newest dv a c"
  using assms by (auto simp: featured_then_newest_def)

lemma set_insert_sorted: "set (insert_sorted cmp x ys) = insert x (set ys)"
  by (induction ys) auto

lemma mset_insert_sorted: "mset (insert_sorted cmp x ys) = add_mset x (mset ys)"
  by (induction ys) auto

lemma mset_array_sort: "mset (array_sort cmp xs) = mset xs"
  by (induction xs) (simp_all add: array_sort_def mset_insert_sorted)

lemma sorted_insert_sorted:
  assumes "\<forall>p \<in> insert x (set ys). dv (createdAt p) \<noteq> None"
    and "sorted_wrt (featured_then_newest dv) ys"
  shows "sorted_wrt (featured_then_newest dv) (insert_sorted (compare_projects dv) x ys)"
  using assms
proof (induction ys)
  case Nil
  then show ?case by simp
next
  case (Cons y ys)
  have vx: "dv (createdAt x) \<noteq> None" and vy: "dv (createdAt y) \<noteq> None"
    and vs: "\<forall>z \<in> set ys. dv (createdAt z) \<noteq> None"
    using Cons.prems(1) by auto
  show ?case
  proof (cases "not_after (compare_projects dv) x y")
    case True
    then have xy: "featured_then_newest dv x y"
      using not_after_compare [OF vx vy] by simp
    have "featured_then_newest dv x z" if "z \<in> set ys" for z
    proof -
      from Cons.prems(2) that have "featured_then_newest dv y z" by simp
      with xy show ?thesis
        using featured_then_newest_trans vx vy vs that by blast
    qed
    with True xy Cons.prems(2) show ?thesis by simp
  next
    case False
    then have "\<not> featured_then_newest dv x y"
      using not_after_compare [OF vx vy] by simp
    then have yx: "featured_then_newest dv y x"
      using featured_then_newest_total [OF vx vy] by blast
    have ih: "sorted_wrt (featured_then_newest dv) (insert_sorted (compare_projects dv) x ys)"
      using Cons.IH Cons.prems vx vs by simp
    from False yx ih Cons.prems(2) show ?thesis
      by (simp add: set_insert_sorted)
  qed
qed

lemma sorted_array_sort:
  assumes "\<forall>p \<in> set ps. dv (createdAt p) \<noteq> None"
  shows "sorted_wrt (featured_then_newest dv) (array_sort (compare_projects dv) ps)"
  using assms
proof (induction ps)
  case Nil
  then show ?case by (simp add: array_sort_def)
next
  case (Cons p ps)
  then have "sorted_wrt (featured_then_newest dv) (array_sort (compare_projects dv) ps)"
    by simp
  moreover have "\<forall>q \<in> insert p (set (array_sort (compare_projects dv) ps)). dv (createdAt q) \<noteq> None"
    using Cons.prems mset_array_sort [of "compare_projects dv" ps]
    by (metis insert_iff list.set_intros(1) list.set_intros(2) mset_eq_setD)
  ultimately have "sorted_wrt (featured_then_newest dv)
      (insert_sorted (compare_projects dv) p (array_sort (compare_projects dv) ps))"
    using sorted_insert_sorted by blast
  then show ?case by (simp add: array_sort_def)
qed

lemma example_dates:
  "date_only_value ''2024-01-01'' = Some 1704067200000"
  "date_only_value ''2023-01-01'' = Some 1672531200000"
  "date_only_value ''2024-06-01'' = Some 1717200000000"
  by (simp_all add: date_only_value_def decimal_def read_nat_def is_digit_def char_code_def
      days_in_month_def days_from_civil_def leap_year_def Let_def)

lemma example_sorted:
  "array_sort (compare_projects date_only_value) [project_A, project_B, project_C] =
     [project_B, project_C, project_A]"
  by (simp add: array_sort_def not_after_def compare_projects_def example_dates
      project_A_def project_B_def project_C_def example_project_def)

text \<open>
  Claim C5. With \<open>showFeaturedFirst\<close> set, on a page with a grid and for projects whose
  creation dates are valid, \<open>displayProjects\<close> renders a rearrangement of the given
  projects that is ordered by \<open>featured\<close> descending, then creation time descending. For
  the projects A (not featured, 2024-01-01), B (featured, 2023-01-01) and C (not
  featured, 2024-06-01) the rendered order is B, C, A.
\<close>

theorem featured_first_order:
  "(showFeaturedFirst (settings st) \<and> grid st \<noteq> None \<and>
    (\<forall>p \<in> set ps. date_value st (createdAt p) \<noteq> None) \<longrightarrow>
      (\<exists>sortedProjects.
         grid (displayProjects ps st) =
           Some (if sortedProjects = [] then NoProjects else Cards sortedProjects) \<and>
         displayed (displayProjects ps st) = displayed st @ [sortedProjects] \<and>
         mset sortedProjects = mset ps \<and>
         sorted_wrt (featured_then_newest (date_value st)) sortedProjects)) \<and>
   grid (displayFiltered featured_first_state) = Some (Cards [project_B, project_C, project_A])"
proof -
  have "grid (displayFiltered featured_first_state) = Some (Cards [project_B, project_C, project_A])"
    by (simp add: displayFiltered_def displayProjects_def featured_first_state_def
        new_ProjectsManager_def example_sorted Let_def)
  moreover have "\<exists>sortedProjects.
         grid (displayProjects ps st) =
           Some (if sortedProjects = [] then NoProjects else Cards sortedProjects) \<and>
         displayed (displayProjects ps st) = displayed st @ [sortedProjects] \<and>
         mset sortedProjects = mset ps \<and>
         sorted_wrt (featured_then_newest (date_value st)) sortedProjects"
    if a: "showFeaturedFirst (settings st)" and g: "grid st \<noteq> None"
      and v: "\<forall>p \<in> set ps. date_value st (createdAt p) \<noteq> None"
  proof -
    from g obtain c where c: "grid st = Some c" by auto
    let ?s = "array_sort (compare_projects (date_value st)) ps"
    have "grid (displayProjects ps st) = Some (if ?s = [] then NoProjects else Cards ?s)"
      and "displayed (displayProjects ps st) = displayed st @ [?s]"
      using a c by (simp_all add: displayProjects_def Let_def)
    moreover have "mset ?s = mset ps" by (rule mset_array_sort)
    moreover have "sorted_wrt (featured_then_newest (date_value st)) ?s"
      using v by (rule sorted_array_sort)
    ultimately show ?thesis by blast
  qed
  ultimately show ?thesis by blast
qed

theorem featured_first_order_witness:
  "showFeaturedFirst (settings featured_first_state) \<and> grid featured_first_state \<noteq> None \<and>
   date_value featured_first_state (createdAt project_A) \<noteq> None \<and>
   date_value featured_first_state (createdAt project_B) \<noteq> None \<and>
   date_value featured_first_state (createdAt project_C) \<noteq> None \<and>
   displayed (displayProjects [project_A, project_B, project_C] featured_first_state) =
     [[project_B, project_C, project_A]] \<and>
   sorted_wrt (featured_then_newest date_only_value) [project_B, project_C, project_A]"
proof -
  have a: "showFeaturedFirst (settings featured_first_state)"
    and g: "grid featured_first_state \<noteq> None"
    and d: "date_value featured_first_state = date_only_value"
    and e: "displayed featured_first_state = []"
    by (simp_all add: featured_first_state_def new_ProjectsManager_def)
  have v: "\<forall>p \<in> set [project_A, project_B, project_C].
      date_value featured_first_state (createdAt p) \<noteq> None"
    by (simp add: d example_dates project_A_def project_B_def project_C_def example_project_def)
  have s: "displayed (displayProjects [project_A, project_B, project_C] featured_first_state) =
     [[project_B, project_C, project_A]]"
    using a g by (auto simp: displayProjects_def Let_def d e example_sorted)
  from featured_first_order [of featured_first_state "[project_A, project_B, project_C]"] a g v
  obtain sp where
    "displayed (displayProjects [project_A, project_B, project_C] featured_first_state) =
       displayed featured_first_state @ [sp]"
    and "sorted_wrt (featured_then_newest (date_value featured_first_state)) sp"
    by blast
  with s e d have "sorted_wrt (featured_then_newest date_only_value) [project_B, project_C, project_A]"
    by simp
  with a g v s show ?thesis by simp
qed

end
